theory Spec2Isabelle
  imports Main
begin

section \<open>ZTools WebDAV synchronisation: the remote client\<close>

text \<open>
  The development follows \<^verbatim>\<open>WebDAVSyncClient\<close> (the class that maps document and
  attachment operations onto the calls of the \<^verbatim>\<open>webdav\<close> package) and the types of
  \<^verbatim>\<open>src/main/core/sync/types.ts\<close>.

  Conventions.
  \<^item> A JavaScript string is modelled by the bytes of its UTF-8 encoding (\<^typ>\<open>string\<close>),
    a \<^verbatim>\<open>Buffer\<close> by its bytes as well. A surrogate that is not half of a pair has no
    UTF-8 encoding; it is written as the three bytes that the scheme of UTF-8 gives its
    code point (\<^verbatim>\<open>ED A0 80\<close> to \<^verbatim>\<open>ED BF BF\<close>), so a string with a lone surrogate is a byte
    string that is not valid UTF-8.
  \<^item> A rejected promise or a thrown error is the \<open>Inl\<close> branch of a sum; every method
    takes the world and returns the world it leaves behind.
  \<^item> The \<^verbatim>\<open>webdav\<close> package and the platform's \<^verbatim>\<open>JSON\<close> object are not part of the
    repository: the client is modelled over any transport handle and any codec, and
    a small in-memory server is given further down to run the definitions on.
\<close>

subsection \<open>Errors\<close>

datatype error =
    NotInitialized              \<comment> \<open>the guard's \<^verbatim>\<open>new Error\<close>: the client handle is null\<close>
  | ConnectionFailed error      \<comment> \<open>\<^verbatim>\<open>testConnection\<close>'s new error, built from the message of its cause\<close>
  | HttpError nat               \<comment> \<open>the transport rejected: the response's status code\<close>
  | NetworkError                \<comment> \<open>the transport rejected: no response\<close>
  | URIError                    \<comment> \<open>\<^verbatim>\<open>encodeURIComponent\<close> on a lone surrogate, \<^verbatim>\<open>decodeURIComponent\<close> on a malformed escape\<close>
  | SyntaxError                 \<comment> \<open>\<^verbatim>\<open>JSON.parse\<close> on malformed text\<close>
  | TypeError                   \<comment> \<open>a property read from \<^verbatim>\<open>null\<close>, \<^verbatim>\<open>JSON.stringify\<close> on a value it refuses\<close>

subsection \<open>Well-formed strings\<close>

definition leading_ones :: "nat \<Rightarrow> nat" where
  "leading_ones b =
     (if b < 128 then 0 else if b < 192 then 1 else if b < 224 then 2
      else if b < 240 then 3 else if b < 248 then 4 else 5)"

definition continuation :: "nat \<Rightarrow> bool" where
  "continuation b \<longleftrightarrow> 128 \<le> b \<and> b < 192"

text \<open>
  The byte sequences that encode one Unicode scalar value in two, three or four bytes.
  A lead byte \<^verbatim>\<open>ED\<close> followed by \<^verbatim>\<open>A0\<close> to \<^verbatim>\<open>BF\<close> would be a surrogate: it is refused.
\<close>

fun utf8_scalar :: "nat list \<Rightarrow> bool" where
  "utf8_scalar [a, b] \<longleftrightarrow> 194 \<le> a \<and> a < 224 \<and> continuation b"
| "utf8_scalar [a, b, c] \<longleftrightarrow>
     224 \<le> a \<and> a < 240 \<and> continuation b \<and> continuation c
     \<and> (if a = 224 then 160 \<le> b else if a = 237 then b < 160 else True)"
| "utf8_scalar [a, b, c, d] \<longleftrightarrow>
     240 \<le> a \<and> a < 245 \<and> continuation b \<and> continuation c \<and> continuation d
     \<and> (if a = 240 then 144 \<le> b else if a = 244 then b < 144 else True)"
| "utf8_scalar _ \<longleftrightarrow> False"

text \<open>
  The strings that are the UTF-8 encoding of a JavaScript string without lone
  surrogates: every character is one byte below 128, or a lead byte with its
  continuation bytes, encoding a scalar value.
\<close>

function utf8_valid :: "string \<Rightarrow> bool" where
  "utf8_valid [] = True"
| "utf8_valid (c # cs) =
     (let n = leading_ones (of_char c) in
      if n = 0 then utf8_valid cs
      else if n = 1 \<or> 4 < n then False
      else n - 1 \<le> length cs
           \<and> utf8_scalar (of_char c # map of_char (take (n - 1) cs))
           \<and> utf8_valid (drop (n - 1) cs))"
  by pat_completeness auto
termination
  by (relation "measure length") auto

subsection \<open>\<^verbatim>\<open>encodeURIComponent\<close> and \<^verbatim>\<open>decodeURIComponent\<close>\<close>

text \<open>
  \<^verbatim>\<open>encodeURIComponent\<close> keeps the unreserved characters
  \<^verbatim>\<open>A-Z a-z 0-9 - _ . ! ~ * ' ( )\<close> and writes every other byte of the UTF-8 encoding
  as \<^verbatim>\<open>%XX\<close> with upper-case hexadecimal digits (\<open>percent_encode\<close>). When it meets a
  surrogate that is not half of a pair it throws \<^verbatim>\<open>URIError\<close> and returns nothing.
\<close>

definition uri_unreserved :: "char \<Rightarrow> bool" where
  "uri_unreserved c \<longleftrightarrow>
     (let n = (of_char c :: nat) in
        (65 \<le> n \<and> n \<le> 90) \<or> (97 \<le> n \<and> n \<le> 122) \<or> (48 \<le> n \<and> n \<le> 57)
        \<or> c \<in> set ''-_.!~*'()'')"

definition hex_upper :: "nat \<Rightarrow> char" where
  "hex_upper n = ''0123456789ABCDEF'' ! n"

definition percent_byte :: "char \<Rightarrow> string" where
  "percent_byte c =
     (let n = (of_char c :: nat) in [CHR ''%'', hex_upper (n div 16), hex_upper (n mod 16)])"

definition percent_encode :: "string \<Rightarrow> string" where
  "percent_encode s = concat (map (\<lambda>c. if uri_unreserved c then [c] else percent_byte c) s)"

definition encodeURIComponent :: "string \<Rightarrow> error + string" where
  "encodeURIComponent s = (if utf8_valid s then Inr (percent_encode s) else Inl URIError)"

text \<open>
  \<^verbatim>\<open>decodeURIComponent\<close> copies every character other than \<^verbatim>\<open>%\<close>; at a \<^verbatim>\<open>%\<close> it
  reads two hexadecimal digits, and when the octet starts a multi-byte UTF-8 sequence
  it reads the continuation octets, each escaped, and checks that they encode a
  Unicode scalar value. Anything else raises \<^verbatim>\<open>URIError\<close>.
\<close>

definition hex_value :: "char \<Rightarrow> nat option" where
  "hex_value c =
     (let n = (of_char c :: nat) in
        if 48 \<le> n \<and> n \<le> 57 then Some (n - 48)
        else if 65 \<le> n \<and> n \<le> 70 then Some (n - 55)
        else if 97 \<le> n \<and> n \<le> 102 then Some (n - 87)
        else None)"

fun escaped_octet :: "string \<Rightarrow> (nat \<times> string) option" where
  "escaped_octet (p # h # l # rest) =
     (if p = CHR ''%'' then
        (case (hex_value h, hex_value l) of
           (Some a, Some b) \<Rightarrow> Some (16 * a + b, rest)
         | _ \<Rightarrow> None)
      else None)"
| "escaped_octet _ = None"

fun escaped_octets :: "nat \<Rightarrow> string \<Rightarrow> (nat list \<times> string) option" where
  "escaped_octets 0 s = Some ([], s)"
| "escaped_octets (Suc k) s =
     (case escaped_octet s of
        None \<Rightarrow> None
      | Some (b, rest) \<Rightarrow>
          (case escaped_octets k rest of
             None \<Rightarrow> None
           | Some (bs, rest') \<Rightarrow> Some (b # bs, rest')))"

lemma escaped_octet_shorter:
  "escaped_octet s = Some (b, rest) \<Longrightarrow> length rest < length s"
  by (induction s rule: escaped_octet.induct) (auto split: if_splits option.splits)

lemma escaped_octets_not_longer:
  "escaped_octets k s = Some (bs, rest) \<Longrightarrow> length rest \<le> length s"
proof (induction k arbitrary: s bs rest)
  case 0
  then show ?case by simp
next
  case (Suc k)
  then show ?case
    by (fastforce split: option.splits dest: escaped_octet_shorter)
qed

function decodeURIComponent :: "string \<Rightarrow> error + string" where
  "decodeURIComponent [] = Inr []"
| "decodeURIComponent (c # cs) =
     (if c \<noteq> CHR ''%'' then
        (case decodeURIComponent cs of Inl e \<Rightarrow> Inl e | Inr r \<Rightarrow> Inr (c # r))
      else
        (case escaped_octet (c # cs) of
           None \<Rightarrow> Inl URIError
         | Some (b, rest) \<Rightarrow>
             if leading_ones b = 0 then
               (case decodeURIComponent rest of Inl e \<Rightarrow> Inl e | Inr r \<Rightarrow> Inr (char_of b # r))
             else if leading_ones b = 1 \<or> 4 < leading_ones b then Inl URIError
             else
               (case escaped_octets (leading_ones b - 1) rest of
                  None \<Rightarrow> Inl URIError
                | Some (bs, rest') \<Rightarrow>
                    if \<not> utf8_scalar (b # bs) then Inl URIError
                    else
                      (case decodeURIComponent rest' of
                         Inl e \<Rightarrow> Inl e
                       | Inr r \<Rightarrow> Inr (map char_of (b # bs) @ r)))))"
  by pat_completeness auto
termination
proof (relation "measure length", goal_cases)
  case 1
  show ?case by simp
next
  case (2 c cs)
  then show ?case by simp
next
  case (3 c cs x b rest)
  then show ?case
    using escaped_octet_shorter [of "c # cs" b rest] by simp
next
  case (4 c cs x b rest x2 bs rest')
  then show ?case
    using escaped_octet_shorter [of "c # cs" b rest]
      escaped_octets_not_longer [of "leading_ones b - 1" rest bs rest'] by simp
qed

subsection \<open>Plain string operations of the platform\<close>

definition endsWith :: "string \<Rightarrow> string \<Rightarrow> bool" where
  "endsWith s suf \<longleftrightarrow> length suf \<le> length s \<and> drop (length s - length suf) s = suf"

definition startsWith :: "string \<Rightarrow> string \<Rightarrow> bool" where
  "startsWith s pre \<longleftrightarrow> take (length pre) s = pre"

text \<open>\<^verbatim>\<open>s.replace(pat, rep)\<close> with a string pattern replaces the first occurrence only.\<close>

fun replace :: "string \<Rightarrow> string \<Rightarrow> string \<Rightarrow> string" where
  "replace [] pat rep = (if pat = [] then rep else [])"
| "replace (c # cs) pat rep =
     (if startsWith (c # cs) pat then rep @ drop (length pat) (c # cs)
      else c # replace cs pat rep)"

subsection \<open>The transport: the calls of the \<^verbatim>\<open>webdav\<close> package\<close>

type_synonym bytes = string

datatype item_type = File | Directory

text \<open>
  \<^verbatim>\<open>FileStat\<close>, the entry of a directory listing. \<open>lastmod\<close> holds the time that
  \<^verbatim>\<open>new Date(item.lastmod).getTime()\<close> reads from the entry, in milliseconds.
\<close>

record FileStat =
  filename :: string
  basename :: string
  lastmod :: int
  type :: item_type

text \<open>
  What \<^verbatim>\<open>getDirectoryContents\<close> resolves to: an array, or (with \<^verbatim>\<open>details: true\<close>) an
  object whose \<^verbatim>\<open>data\<close> is the array; \<open>Detailed None\<close> is an object whose \<^verbatim>\<open>data\<close> is
  not an array.
\<close>

datatype dir_response = Plain "FileStat list" | Detailed "FileStat list option"

text \<open>
  A handle (what \<^verbatim>\<open>createClient\<close> returns) over a remote of type \<open>'r\<close>. Each call takes
  the remote and returns its outcome with the remote it leaves. \<open>putFileContents\<close> is
  the call with \<^verbatim>\<open>overwrite: true\<close>, the only way the client uses it; the flag of
  \<open>getDirectoryContents\<close> is its \<^verbatim>\<open>details\<close> option.
\<close>

record 'r WebDAVClient =
  exists :: "string \<Rightarrow> 'r \<Rightarrow> (error + bool) \<times> 'r"
  createDirectory :: "string \<Rightarrow> 'r \<Rightarrow> (error + unit) \<times> 'r"
  getDirectoryContents :: "string \<Rightarrow> bool \<Rightarrow> 'r \<Rightarrow> (error + dir_response) \<times> 'r"
  putFileContents :: "string \<Rightarrow> bytes \<Rightarrow> 'r \<Rightarrow> (error + unit) \<times> 'r"
  getFileContents :: "string \<Rightarrow> 'r \<Rightarrow> (error + bytes) \<times> 'r"
  deleteFile :: "string \<Rightarrow> 'r \<Rightarrow> (error + unit) \<times> 'r"

text \<open>
  The world a method runs in: the remote, and the calls made on the handle so far, in
  order. A method that makes no call leaves the trace as it found it.
\<close>

datatype request =
    Exists string
  | CreateDirectory string
  | GetDirectoryContents string bool
  | PutFileContents string bytes
  | GetFileContents string
  | DeleteFile string

record 'r world =
  remote :: 'r
  trace :: "request list"

definition call ::
  "request \<Rightarrow> ('r \<Rightarrow> (error + 'a) \<times> 'r) \<Rightarrow> 'r world \<Rightarrow> (error + 'a) \<times> 'r world" where
  "call q f w =
     (case f (remote w) of (res, r') \<Rightarrow> (res, \<lparr>remote = r', trace = trace w @ [q]\<rparr>))"

subsection \<open>The platform's JSON and property access\<close>

text \<open>
  Documents and metadata are values of a type \<open>'d\<close> (\<^verbatim>\<open>any\<close> in the source), of which
  \<open>js_null\<close> is the value \<^verbatim>\<open>null\<close> and \<open>truthy\<close> the values that pass an \<^verbatim>\<open>if\<close>.
  \<open>JSON_stringify d\<close> is \<^verbatim>\<open>JSON.stringify(d, null, 2)\<close> and \<open>JSON_parse\<close> is \<^verbatim>\<open>JSON.parse\<close>.
  \<open>prop_id d\<close> is \<^verbatim>\<open>d._id\<close> as \<^verbatim>\<open>encodeURIComponent\<close> receives it, a string; reading the
  property throws \<^verbatim>\<open>TypeError\<close> when \<open>d\<close> is \<^verbatim>\<open>null\<close> or \<^verbatim>\<open>undefined\<close>.
\<close>

record 'd platform =
  JSON_stringify :: "'d \<Rightarrow> error + string"
  JSON_parse :: "string \<Rightarrow> error + 'd"
  prop_id :: "'d \<Rightarrow> error + string"
  js_null :: 'd
  truthy :: "'d \<Rightarrow> bool"

subsection \<open>Promises\<close>

text \<open>
  An \<^verbatim>\<open>async\<close> body is a function from the world to an outcome and the world after it.
  \<open>await m k\<close> runs \<open>m\<close> and, when it resolves, continues with \<open>k\<close>; a rejection ends
  the body. \<open>try_catch m h\<close> is \<^verbatim>\<open>try { m } catch (error) { h }\<close>.
\<close>

type_synonym ('a, 'r) promise = "'r world \<Rightarrow> (error + 'a) \<times> 'r world"

definition resolve :: "'a \<Rightarrow> ('a, 'r) promise" where
  "resolve x w = (Inr x, w)"

definition reject :: "error \<Rightarrow> ('a, 'r) promise" where
  "reject e w = (Inl e, w)"

definition await :: "('a, 'r) promise \<Rightarrow> ('a \<Rightarrow> ('b, 'r) promise) \<Rightarrow> ('b, 'r) promise" where
  "await m k w = (case m w of (Inl e, w') \<Rightarrow> (Inl e, w') | (Inr x, w') \<Rightarrow> k x w')"

definition try_catch :: "('a, 'r) promise \<Rightarrow> (error \<Rightarrow> ('a, 'r) promise) \<Rightarrow> ('a, 'r) promise" where
  "try_catch m h w = (case m w of (Inl e, w') \<Rightarrow> h e w' | (Inr x, w') \<Rightarrow> (Inr x, w'))"

text \<open>\<^verbatim>\<open>Array.prototype.map\<close> with a callback that may throw: the first throw ends it.\<close>

fun map_throwing :: "('a \<Rightarrow> error + 'b) \<Rightarrow> 'a list \<Rightarrow> error + 'b list" where
  "map_throwing f [] = Inr []"
| "map_throwing f (x # xs) =
     (case f x of
        Inl e \<Rightarrow> Inl e
      | Inr y \<Rightarrow> (case map_throwing f xs of Inl e \<Rightarrow> Inl e | Inr ys \<Rightarrow> Inr (y # ys)))"

subsection \<open>Types of \<^verbatim>\<open>sync/types.ts\<close>\<close>

record SyncConfig =
  enabled :: bool
  serverUrl :: string
  username :: string
  password :: string
  syncInterval :: nat
  lastSyncTime :: int
  deviceId :: string

text \<open>
  Three interfaces of the source have a field \<^verbatim>\<open>docId\<close>; a field is a constant here, so
  each carries its record's name: \<open>meta_docId\<close> is \<^verbatim>\<open>RemoteFileMeta.docId\<close>.
\<close>

record RemoteFileMeta =
  meta_docId :: string
  lastModified :: int

record 'd attachment =
  data :: bytes
  metadata :: "'d option"

subsection \<open>\<^verbatim>\<open>WebDAVSyncClient\<close>\<close>

text \<open>
  The object's one field, \<^verbatim>\<open>client: WebDAVClient | null\<close>, is an \<open>option\<close>; it starts as
  \<open>None\<close> and only \<open>init\<close> assigns it. Every other method reads it, so it takes it as
  an argument.
\<close>

definition testConnection :: "'r WebDAVClient option \<Rightarrow> (bool, 'r) promise" where
  "testConnection client =
     (case client of
        None \<Rightarrow> reject NotInitialized
      | Some c \<Rightarrow>
          try_catch
            (await (call (GetDirectoryContents ''/'' False) (getDirectoryContents c ''/'' False))
               (\<lambda>_. resolve True))
            (\<lambda>error. reject (ConnectionFailed error)))"

definition ensureRemoteDirectory :: "'r WebDAVClient option \<Rightarrow> (unit, 'r) promise" where
  "ensureRemoteDirectory client =
     (case client of
        None \<Rightarrow> resolve ()
      | Some c \<Rightarrow>
          (let remotePath = ''/ztools-sync'' in
           await (call (Exists remotePath) (exists c remotePath)) (\<lambda>exists'.
           await (if \<not> exists'
                  then call (CreateDirectory remotePath) (createDirectory c remotePath)
                  else resolve ()) (\<lambda>_.
           (let attachmentPath = ''/ztools-sync/attachments'' in
            await (call (Exists attachmentPath) (exists c attachmentPath)) (\<lambda>attachmentExists.
            if \<not> attachmentExists
            then call (CreateDirectory attachmentPath) (createDirectory c attachmentPath)
            else resolve ()))))))"

text \<open>
  \<open>init\<close> assigns the field first and then awaits the two steps: whatever they do, the
  field keeps the new handle. The result carries the field's value after the call.
\<close>

definition init ::
  "(string \<Rightarrow> string \<Rightarrow> string \<Rightarrow> 'r WebDAVClient) \<Rightarrow> SyncConfig \<Rightarrow>
   'r WebDAVClient option \<Rightarrow> 'r world \<Rightarrow> (error + unit) \<times> 'r WebDAVClient option \<times> 'r world" where
  "init createClient config client w =
     (let client' = Some (createClient (serverUrl config) (username config) (password config))
      in case await (testConnection client') (\<lambda>_. ensureRemoteDirectory client') w of
           (res, w') \<Rightarrow> (res, client', w'))"

text \<open>The handle \<open>init\<close> opens for a configuration.\<close>

abbreviation handle_for ::
  "(string \<Rightarrow> string \<Rightarrow> string \<Rightarrow> 'r WebDAVClient) \<Rightarrow> SyncConfig \<Rightarrow> 'r WebDAVClient" where
  "handle_for createClient config \<equiv>
     createClient (serverUrl config) (username config) (password config)"

text \<open>
  \<^verbatim>\<open>encodeURIComponent(doc._id)\<close> comes first, before the text is made and before any
  call: when it throws, the method rejects with the world as it was.
\<close>

definition uploadDoc :: "'d platform \<Rightarrow> 'r WebDAVClient option \<Rightarrow> 'd \<Rightarrow> (unit, 'r) promise" where
  "uploadDoc js client doc =
     (case client of
        None \<Rightarrow> reject NotInitialized
      | Some c \<Rightarrow>
          (case prop_id js doc of
             Inl e \<Rightarrow> reject e
           | Inr docId \<Rightarrow>
               (case encodeURIComponent docId of
                  Inl e \<Rightarrow> reject e
                | Inr safeDocId \<Rightarrow>
                    (let remotePath = ''/ztools-sync/'' @ safeDocId @ ''.json'' in
                     case JSON_stringify js doc of
                       Inl e \<Rightarrow> reject e
                     | Inr content \<Rightarrow>
                         try_catch
                           (call (PutFileContents remotePath content)
                              (putFileContents c remotePath content))
                           (\<lambda>error. reject error)))))"

text \<open>
  \<open>downloadDoc\<close> returns \<^verbatim>\<open>null\<close> for a path that does not exist and otherwise the value
  of \<^verbatim>\<open>JSON.parse\<close> as it is, which is \<^verbatim>\<open>null\<close> as well when the file holds that text.
\<close>

definition downloadDoc ::
  "'d platform \<Rightarrow> 'r WebDAVClient option \<Rightarrow> string \<Rightarrow> ('d, 'r) promise" where
  "downloadDoc js client docId =
     (case client of
        None \<Rightarrow> reject NotInitialized
      | Some c \<Rightarrow>
          (case encodeURIComponent docId of
             Inl e \<Rightarrow> reject e
           | Inr safeDocId \<Rightarrow>
               (let remotePath = ''/ztools-sync/'' @ safeDocId @ ''.json'' in
                await (call (Exists remotePath) (exists c remotePath)) (\<lambda>exists'.
                if \<not> exists' then resolve (js_null js)
                else
                  await (call (GetFileContents remotePath) (getFileContents c remotePath))
                    (\<lambda>content.
                       case JSON_parse js content of
                         Inl e \<Rightarrow> reject e
                       | Inr d \<Rightarrow> resolve d)))))"

fun contents_of :: "dir_response \<Rightarrow> FileStat list option" where
  "contents_of (Plain items) = Some items"
| "contents_of (Detailed d) = d"

definition listRemoteDocsWithMeta ::
  "'r WebDAVClient option \<Rightarrow> (RemoteFileMeta list, 'r) promise" where
  "listRemoteDocsWithMeta client =
     (case client of
        None \<Rightarrow> reject NotInitialized
      | Some c \<Rightarrow>
          await (call (GetDirectoryContents ''/ztools-sync'' True)
                   (getDirectoryContents c ''/ztools-sync'' True))
            (\<lambda>response.
               case contents_of response of
                 None \<Rightarrow> resolve []
               | Some contents \<Rightarrow>
                   (case map_throwing
                           (\<lambda>item.
                              (let encodedDocId = replace (basename item) ''.json'' [] in
                               case decodeURIComponent encodedDocId of
                                 Inl e \<Rightarrow> Inl e
                               | Inr docId \<Rightarrow>
                                   Inr \<lparr>meta_docId = docId, lastModified = lastmod item\<rparr>))
                           (filter (\<lambda>item. type item = File \<and> endsWith (filename item) ''.json'')
                              contents) of
                      Inl e \<Rightarrow> reject e
                    | Inr metas \<Rightarrow> resolve metas)))"

definition deleteDoc :: "'r WebDAVClient option \<Rightarrow> string \<Rightarrow> (unit, 'r) promise" where
  "deleteDoc client docId =
     (case client of
        None \<Rightarrow> reject NotInitialized
      | Some c \<Rightarrow>
          (case encodeURIComponent docId of
             Inl e \<Rightarrow> reject e
           | Inr safeDocId \<Rightarrow>
               (let remotePath = ''/ztools-sync/'' @ safeDocId @ ''.json'' in
                call (DeleteFile remotePath) (deleteFile c remotePath))))"

text \<open>
  \<open>meta = None\<close> is a \<^verbatim>\<open>metadata\<close> argument that is left out; one that is given is
  uploaded when it is truthy.
\<close>

definition uploadAttachment ::
  "'d platform \<Rightarrow> 'r WebDAVClient option \<Rightarrow> string \<Rightarrow> bytes \<Rightarrow> 'd option \<Rightarrow> (unit, 'r) promise" where
  "uploadAttachment js client docId buf meta =
     (case client of
        None \<Rightarrow> reject NotInitialized
      | Some c \<Rightarrow>
          (case encodeURIComponent docId of
             Inl e \<Rightarrow> reject e
           | Inr safeDocId \<Rightarrow>
               (let dataPath = ''/ztools-sync/attachments/'' @ safeDocId @ ''.bin'' in
                await (call (PutFileContents dataPath buf) (putFileContents c dataPath buf)) (\<lambda>_.
                case meta of
                  None \<Rightarrow> resolve ()
                | Some m \<Rightarrow>
                    if truthy js m then
                      (let metaPath = ''/ztools-sync/attachments/'' @ safeDocId @ ''.meta.json'' in
                       case JSON_stringify js m of
                         Inl e \<Rightarrow> reject e
                       | Inr text \<Rightarrow>
                           call (PutFileContents metaPath text) (putFileContents c metaPath text))
                    else resolve ()))))"

text \<open>
  The result of \<open>downloadAttachment\<close> is \<^verbatim>\<open>null\<close> (\<open>None\<close>) or an object with the payload
  and the metadata; \<open>metadata = None\<close> is \<^verbatim>\<open>undefined\<close>, the value the variable starts with.
\<close>

definition downloadAttachment ::
  "'d platform \<Rightarrow> 'r WebDAVClient option \<Rightarrow> string \<Rightarrow> ('d attachment option, 'r) promise" where
  "downloadAttachment js client docId =
     (case client of
        None \<Rightarrow> reject NotInitialized
      | Some c \<Rightarrow>
          (case encodeURIComponent docId of
             Inl e \<Rightarrow> reject e
           | Inr safeDocId \<Rightarrow>
               (let dataPath = ''/ztools-sync/attachments/'' @ safeDocId @ ''.bin'';
                    metaPath = ''/ztools-sync/attachments/'' @ safeDocId @ ''.meta.json''
                in
                await (call (Exists dataPath) (exists c dataPath)) (\<lambda>dataExists.
                if \<not> dataExists then resolve None
                else
                  await (call (GetFileContents dataPath) (getFileContents c dataPath)) (\<lambda>buf.
                  await
                    (try_catch
                       (await (call (Exists metaPath) (exists c metaPath)) (\<lambda>metaExists.
                        if metaExists then
                          await (call (GetFileContents metaPath) (getFileContents c metaPath))
                            (\<lambda>metaContent.
                               case JSON_parse js metaContent of
                                 Inl e \<Rightarrow> reject e
                               | Inr m \<Rightarrow> resolve (Some m))
                        else resolve None))
                       (\<lambda>error. resolve None))
                    (\<lambda>meta. resolve (Some \<lparr>data = buf, metadata = meta\<rparr>)))))))"

definition deleteAttachment :: "'r WebDAVClient option \<Rightarrow> string \<Rightarrow> (unit, 'r) promise" where
  "deleteAttachment client docId =
     (case client of
        None \<Rightarrow> reject NotInitialized
      | Some c \<Rightarrow>
          (case encodeURIComponent docId of
             Inl e \<Rightarrow> reject e
           | Inr safeDocId \<Rightarrow>
               (let remotePath = ''/ztools-sync/attachments/'' @ safeDocId @ ''.bin'' in
                await (call (Exists remotePath) (exists c remotePath)) (\<lambda>exists'.
                if exists' then call (DeleteFile remotePath) (deleteFile c remotePath)
                else resolve ()))))"

definition listRemoteAttachments :: "'r WebDAVClient option \<Rightarrow> (string list, 'r) promise" where
  "listRemoteAttachments client =
     (case client of
        None \<Rightarrow> reject NotInitialized
      | Some c \<Rightarrow>
          await (call (GetDirectoryContents ''/ztools-sync/attachments'' True)
                   (getDirectoryContents c ''/ztools-sync/attachments'' True))
            (\<lambda>response.
               case contents_of response of
                 None \<Rightarrow> resolve []
               | Some contents \<Rightarrow>
                   (case map_throwing
                           (\<lambda>item.
                              (let encodedId = replace (basename item) ''.bin'' [] in
                               decodeURIComponent encodedId))
                           (filter (\<lambda>item. type item = File \<and> endsWith (filename item) ''.bin'')
                              contents) of
                      Inl e \<Rightarrow> reject e
                    | Inr ids \<Rightarrow> resolve ids)))"

subsection \<open>The remote paths\<close>

text \<open>
  The paths the methods build for an id that \<^verbatim>\<open>encodeURIComponent\<close> accepts: the
  templates of the source around the escaped id.
\<close>

definition docPath :: "string \<Rightarrow> string" where
  "docPath docId = ''/ztools-sync/'' @ percent_encode docId @ ''.json''"

definition attachmentDataPath :: "string \<Rightarrow> string" where
  "attachmentDataPath docId = ''/ztools-sync/attachments/'' @ percent_encode docId @ ''.bin''"

definition attachmentMetaPath :: "string \<Rightarrow> string" where
  "attachmentMetaPath docId =
     ''/ztools-sync/attachments/'' @ percent_encode docId @ ''.meta.json''"

text \<open>\<^verbatim>\<open>s.includes(pat)\<close>: the text \<open>pat\<close> occurs in \<open>s\<close>.\<close>

fun includes_text :: "string \<Rightarrow> string \<Rightarrow> bool" where
  "includes_text [] pat \<longleftrightarrow> pat = []"
| "includes_text (c # cs) pat \<longleftrightarrow> startsWith (c # cs) pat \<or> includes_text cs pat"

section \<open>An in-memory WebDAV server\<close>

text \<open>
  A remote to run the client on: a server that holds collections (directories) and
  files by path and answers as a WebDAV server does (RFC 4918): \<^verbatim>\<open>404\<close> for a
  resource that is not there, \<^verbatim>\<open>405\<close> for \<^verbatim>\<open>MKCOL\<close> on a path in use, \<^verbatim>\<open>409\<close> for a missing
  parent collection, \<^verbatim>\<open>401\<close> for credentials it does not know. The \<^verbatim>\<open>webdav\<close> package
  rejects on every status from 400 on, and on a request that gets no response.
\<close>

record dav_server =
  online :: bool
  accounts :: "(string \<times> string) list"
  collections :: "string list"
  files :: "(string \<times> bytes \<times> int) list"
  clock :: int

definition parent_path :: "string \<Rightarrow> string" where
  "parent_path p =
     (let d = rev (drop 1 (dropWhile (\<lambda>c. c \<noteq> CHR ''/'') (rev p)))
      in if d = [] then ''/'' else d)"

definition base_name :: "string \<Rightarrow> string" where
  "base_name p = rev (takeWhile (\<lambda>c. c \<noteq> CHR ''/'') (rev p))"

definition is_collection :: "dav_server \<Rightarrow> string \<Rightarrow> bool" where
  "is_collection s p \<longleftrightarrow> p = ''/'' \<or> p \<in> set (collections s)"

definition is_file :: "dav_server \<Rightarrow> string \<Rightarrow> bool" where
  "is_file s p \<longleftrightarrow> p \<in> set (map fst (files s))"

definition refused :: "string \<times> string \<Rightarrow> dav_server \<Rightarrow> error option" where
  "refused cred s =
     (if \<not> online s then Some NetworkError
      else if cred \<notin> set (accounts s) then Some (HttpError 401)
      else None)"

definition dav_exists :: "string \<times> string \<Rightarrow> string \<Rightarrow> dav_server \<Rightarrow> (error + bool) \<times> dav_server" where
  "dav_exists cred p s =
     (case refused cred s of
        Some e \<Rightarrow> (Inl e, s)
      | None \<Rightarrow> (Inr (is_collection s p \<or> is_file s p), s))"

definition dav_createDirectory ::
  "string \<times> string \<Rightarrow> string \<Rightarrow> dav_server \<Rightarrow> (error + unit) \<times> dav_server" where
  "dav_createDirectory cred p s =
     (case refused cred s of
        Some e \<Rightarrow> (Inl e, s)
      | None \<Rightarrow>
          if is_collection s p \<or> is_file s p then (Inl (HttpError 405), s)
          else if \<not> is_collection s (parent_path p) then (Inl (HttpError 409), s)
          else (Inr (), s\<lparr>collections := collections s @ [p]\<rparr>))"

definition dav_listing :: "dav_server \<Rightarrow> string \<Rightarrow> FileStat list" where
  "dav_listing s p =
     map (\<lambda>d. \<lparr>filename = d, basename = base_name d, lastmod = 0, type = Directory\<rparr>)
       (filter (\<lambda>d. parent_path d = p \<and> d \<noteq> p) (collections s))
     @ map (\<lambda>(f, b, t). \<lparr>filename = f, basename = base_name f, lastmod = t, type = File\<rparr>)
         (filter (\<lambda>(f, b, t). parent_path f = p) (files s))"

definition dav_getDirectoryContents ::
  "string \<times> string \<Rightarrow> string \<Rightarrow> bool \<Rightarrow> dav_server \<Rightarrow> (error + dir_response) \<times> dav_server" where
  "dav_getDirectoryContents cred p details s =
     (case refused cred s of
        Some e \<Rightarrow> (Inl e, s)
      | None \<Rightarrow>
          if \<not> is_collection s p then (Inl (HttpError 404), s)
          else if details then (Inr (Detailed (Some (dav_listing s p))), s)
          else (Inr (Plain (dav_listing s p)), s))"

definition dav_putFileContents ::
  "string \<times> string \<Rightarrow> string \<Rightarrow> bytes \<Rightarrow> dav_server \<Rightarrow> (error + unit) \<times> dav_server" where
  "dav_putFileContents cred p b s =
     (case refused cred s of
        Some e \<Rightarrow> (Inl e, s)
      | None \<Rightarrow>
          if is_collection s p then (Inl (HttpError 405), s)
          else if \<not> is_collection s (parent_path p) then (Inl (HttpError 409), s)
          else (Inr (),
                s\<lparr>files := filter (\<lambda>(f, _). f \<noteq> p) (files s) @ [(p, b, clock s + 1)],
                  clock := clock s + 1\<rparr>))"

definition dav_getFileContents ::
  "string \<times> string \<Rightarrow> string \<Rightarrow> dav_server \<Rightarrow> (error + bytes) \<times> dav_server" where
  "dav_getFileContents cred p s =
     (case refused cred s of
        Some e \<Rightarrow> (Inl e, s)
      | None \<Rightarrow>
          (case map_of (files s) p of
             None \<Rightarrow> (Inl (HttpError 404), s)
           | Some (b, t) \<Rightarrow> (Inr b, s)))"

text \<open>\<^verbatim>\<open>DELETE\<close> removes a file, or a collection with everything under it.\<close>

definition dav_deleteFile ::
  "string \<times> string \<Rightarrow> string \<Rightarrow> dav_server \<Rightarrow> (error + unit) \<times> dav_server" where
  "dav_deleteFile cred p s =
     (case refused cred s of
        Some e \<Rightarrow> (Inl e, s)
      | None \<Rightarrow>
          if is_file s p then (Inr (), s\<lparr>files := filter (\<lambda>(f, _). f \<noteq> p) (files s)\<rparr>)
          else if p \<in> set (collections s) then
            (Inr (),
             s\<lparr>collections := filter (\<lambda>d. d \<noteq> p \<and> \<not> startsWith d (p @ ''/'')) (collections s),
               files := filter (\<lambda>(f, _). \<not> startsWith f (p @ ''/'')) (files s)\<rparr>)
          else (Inl (HttpError 404), s))"

text \<open>
  \<^verbatim>\<open>createClient(serverUrl, {username, password})\<close> against this server: the handle
  sends the credentials with every request. The world holds the one server, whatever
  the URL.
\<close>

definition dav_createClient :: "string \<Rightarrow> string \<Rightarrow> string \<Rightarrow> dav_server WebDAVClient" where
  "dav_createClient url user pass =
     \<lparr>exists = dav_exists (user, pass),
      createDirectory = dav_createDirectory (user, pass),
      getDirectoryContents = dav_getDirectoryContents (user, pass),
      putFileContents = dav_putFileContents (user, pass),
      getFileContents = dav_getFileContents (user, pass),
      deleteFile = dav_deleteFile (user, pass)\<rparr>"

subsection \<open>A codec for flat documents\<close>

text \<open>
  A platform to run the client on: a value is \<^verbatim>\<open>null\<close> or an object whose properties are
  strings, kept as a list of name and value, written and read in the format of
  \<^verbatim>\<open>JSON.stringify(doc, null, 2)\<close>. The codec covers names and values of printable
  characters other than the quote and the backslash, which need no escape; it declines
  any other text.
\<close>

datatype flat_doc = Null | Object "(string \<times> string) list"

definition plain_char :: "char \<Rightarrow> bool" where
  "plain_char c \<longleftrightarrow> 32 \<le> (of_char c :: nat) \<and> c \<noteq> CHR 0x22 \<and> c \<noteq> CHR 0x5C"

definition quoted :: "string \<Rightarrow> string" where
  "quoted s = [CHR 0x22] @ s @ [CHR 0x22]"

fun members_text :: "(string \<times> string) list \<Rightarrow> string" where
  "members_text [] = []"
| "members_text [(k, v)] = [CHR 0x0A] @ ''  '' @ quoted k @ '': '' @ quoted v @ [CHR 0x0A]"
| "members_text ((k, v) # kvs) =
     [CHR 0x0A] @ ''  '' @ quoted k @ '': '' @ quoted v @ '','' @ members_text kvs"

fun flat_stringify :: "flat_doc \<Rightarrow> error + string" where
  "flat_stringify Null = Inr ''null''"
| "flat_stringify (Object d) =
     (if list_all (\<lambda>(k, v). list_all plain_char k \<and> list_all plain_char v) d
      then Inr (''{'' @ members_text d @ ''}'')
      else Inl TypeError)"

datatype token = LBrace | RBrace | Colon | Comma | Str string

text \<open>The scanner: \<open>Some acc\<close> while inside a string, with the characters read so far.\<close>

fun scan :: "string option \<Rightarrow> string \<Rightarrow> token list option" where
  "scan None [] = Some []"
| "scan (Some acc) [] = None"
| "scan None (c # cs) =
     (if c = CHR 0x22 then scan (Some []) cs
      else if c \<in> set [CHR 0x20, CHR 0x0A, CHR 0x0D, CHR 0x09] then scan None cs
      else if c = CHR ''{'' then map_option ((#) LBrace) (scan None cs)
      else if c = CHR ''}'' then map_option ((#) RBrace) (scan None cs)
      else if c = CHR '':'' then map_option ((#) Colon) (scan None cs)
      else if c = CHR '','' then map_option ((#) Comma) (scan None cs)
      else None)"
| "scan (Some acc) (c # cs) =
     (if c = CHR 0x22 then map_option ((#) (Str (rev acc))) (scan None cs)
      else if plain_char c then scan (Some (c # acc)) cs
      else None)"

fun members :: "token list \<Rightarrow> (string \<times> string) list option" where
  "members [Str k, Colon, Str v, RBrace] = Some [(k, v)]"
| "members (Str k # Colon # Str v # Comma # ts) = map_option ((#) (k, v)) (members ts)"
| "members _ = None"

definition blank :: "char \<Rightarrow> bool" where
  "blank c \<longleftrightarrow> c \<in> set [CHR 0x20, CHR 0x0A, CHR 0x0D, CHR 0x09]"

definition trimmed :: "string \<Rightarrow> string" where
  "trimmed s = rev (dropWhile blank (rev (dropWhile blank s)))"

definition flat_parse :: "string \<Rightarrow> error + flat_doc" where
  "flat_parse s =
     (if trimmed s = ''null'' then Inr Null
      else
        (case scan None s of
           Some [LBrace, RBrace] \<Rightarrow> Inr (Object [])
         | Some (LBrace # ts) \<Rightarrow>
             (case members ts of Some d \<Rightarrow> Inr (Object d) | None \<Rightarrow> Inl SyntaxError)
         | _ \<Rightarrow> Inl SyntaxError))"

text \<open>
  \<^verbatim>\<open>doc._id\<close> as \<^verbatim>\<open>encodeURIComponent\<close> reads it: the property's value, or the text
  \<^verbatim>\<open>undefined\<close> when the object has none; \<^verbatim>\<open>null\<close> has no properties.
\<close>

fun flat_id :: "flat_doc \<Rightarrow> error + string" where
  "flat_id Null = Inl TypeError"
| "flat_id (Object d) = Inr (case map_of d ''_id'' of Some v \<Rightarrow> v | None \<Rightarrow> ''undefined'')"

fun flat_truthy :: "flat_doc \<Rightarrow> bool" where
  "flat_truthy Null \<longleftrightarrow> False"
| "flat_truthy (Object d) \<longleftrightarrow> True"

definition flat_platform :: "flat_doc platform" where
  "flat_platform =
     \<lparr>JSON_stringify = flat_stringify, JSON_parse = flat_parse, prop_id = flat_id,
      js_null = Null, truthy = flat_truthy\<rparr>"

section \<open>Revision tokens\<close>

text \<open>
  The repository's tests import \<^verbatim>\<open>generateNewRev\<close> from \<^verbatim>\<open>src/main/core/lmdb/utils\<close>; the
  function itself is not among the sources, so it is modelled from the specification.
\<close>

text \<open>
  Modelled from the spec: decimal numerals, for the ``leading integer'' that
  \<^verbatim>\<open>generateNewRev\<close> parses and the \<^verbatim>\<open><n+1>\<close> that it writes.
\<close>

definition is_digit :: "char \<Rightarrow> bool" where
  "is_digit c \<longleftrightarrow> 48 \<le> (of_char c :: nat) \<and> (of_char c :: nat) \<le> 57"

definition digit_char :: "nat \<Rightarrow> char" where
  "digit_char n = ''0123456789'' ! (n mod 10)"

definition digit_value :: "char \<Rightarrow> nat" where
  "digit_value c = of_char c - 48"

text \<open>
  Modelled from the spec: the decimal numeral of a number, as the \<^verbatim>\<open><n+1>\<close> of the
  returned revision.
\<close>

function show_nat :: "nat \<Rightarrow> string" where
  "show_nat n = (if n < 10 then [digit_char n] else show_nat (n div 10) @ [digit_char n])"
  by pat_completeness auto
termination
  by (relation "measure (\<lambda>n. n)") auto

text \<open>Modelled from the spec: the number a run of decimal digits stands for.\<close>

definition read_nat :: "string \<Rightarrow> nat" where
  "read_nat s = foldl (\<lambda>acc c. 10 * acc + digit_value c) 0 s"

text \<open>
  Modelled from the spec: the function \<^verbatim>\<open>generateNewRev\<close> of the Revision Generator
  (section 4.2), which is missing from the sources. In the spec's words it
  ``parses the leading integer of \<^verbatim>\<open>previousRev\<close> (treats missing or
  non-numeric-prefixed input as 0)'': the leading integer is the longest run of
  decimal digits the string starts with; \<open>None\<close> is a call with no argument.
\<close>

definition leading_integer :: "string option \<Rightarrow> nat" where
  "leading_integer previousRev =
     (case previousRev of
        None \<Rightarrow> 0
      | Some s \<Rightarrow> (if takeWhile is_digit s = [] then 0 else read_nat (takeWhile is_digit s)))"

text \<open>Modelled from the spec: a byte as two of the ``hex'' characters of the suffix.\<close>

definition hex_lower :: "nat \<Rightarrow> char" where
  "hex_lower n = ''0123456789abcdef'' ! (n mod 16)"

definition hex_of_byte :: "char \<Rightarrow> string" where
  "hex_of_byte b = [hex_lower (of_char b div 16), hex_lower (of_char b)]"

text \<open>
  Modelled from the spec: the ``freshly generated random 32-hex-character suffix''.
  The randomness is the argument: \<open>entropy i\<close> is the \<open>i\<close>-th random byte drawn for this
  call, and the suffix writes sixteen of them in lower-case hexadecimal.
\<close>

definition random_suffix :: "(nat \<Rightarrow> char) \<Rightarrow> string" where
  "random_suffix entropy = concat (map (\<lambda>i. hex_of_byte (entropy i)) [0..<16])"

text \<open>
  Modelled from the spec: \<^verbatim>\<open>generateNewRev(previousRev?)\<close> ``increments it, appends a
  freshly generated random 32-hex-character suffix, returns \<^verbatim>\<open>"<n+1>-<hex>"\<close>''.
\<close>

definition generateNewRev :: "(nat \<Rightarrow> char) \<Rightarrow> string option \<Rightarrow> string" where
  "generateNewRev entropy previousRev =
     show_nat (leading_integer previousRev + 1) @ ''-'' @ random_suffix entropy"

text \<open>
  The tests' pattern \<^verbatim>\<open>^n-[a-f0-9]{32}$\<close> for a sequence number \<open>n\<close>: the numeral of \<open>n\<close>, a
  dash, and exactly 32 characters that are digits or letters from \<^verbatim>\<open>a\<close> to \<^verbatim>\<open>f\<close>.
\<close>

definition is_hex_lower :: "char \<Rightarrow> bool" where
  "is_hex_lower c \<longleftrightarrow> is_digit c \<or> (97 \<le> (of_char c :: nat) \<and> (of_char c :: nat) \<le> 102)"

definition matches_rev :: "nat \<Rightarrow> string \<Rightarrow> bool" where
  "matches_rev n s \<longleftrightarrow>
     take (length (show_nat n)) s = show_nat n
     \<and> (case drop (length (show_nat n)) s of
          [] \<Rightarrow> False
        | c # h \<Rightarrow> c = CHR ''-'' \<and> length h = 32 \<and> list_all is_hex_lower h)"

definition starts_with_digit :: "string \<Rightarrow> bool" where
  "starts_with_digit s = (case s of [] \<Rightarrow> False | c # _ \<Rightarrow> is_digit c)"

text \<open>A random source for the examples.\<close>

definition demo_entropy :: "nat \<Rightarrow> char" where
  "demo_entropy i = char_of (37 * i + 11)"

section \<open>The sync engine\<close>

subsection \<open>Types of \<^verbatim>\<open>sync/types.ts\<close> used by the engine\<close>

datatype operation = Put | Remove

record SyncQueueItem =
  item_docId :: string
  operation :: operation
  timestamp :: int
  retryCount :: nat

text \<open>
  \<^verbatim>\<open>localDoc\<close> and \<^verbatim>\<open>remoteDoc\<close> are \<^verbatim>\<open>any\<close> in the source; \<open>localDoc = None\<close> is the
  local side of a document that has been removed locally.
\<close>

record 'd ConflictRecord =
  conflict_docId :: string
  localDoc :: "'d option"
  remoteDoc :: 'd
  conflict_timestamp :: int

record SyncResult =
  uploaded :: nat
  downloaded :: nat
  conflicts :: nat
  errors :: nat

subsection \<open>One sync cycle\<close>

text \<open>
  The engine's code is not among the sources (only its types and the remote client
  are), so the cycle is modelled from section 4.5 of the specification.
\<close>

text \<open>
  Modelled from the spec: the Remote Client as the engine uses it (section 4.4).
  \<open>rc_connect\<close> is step 1, ``establish/verify the Remote Client connection''; \<open>rc_list\<close>
  and \<open>rc_download\<close> are \<^verbatim>\<open>listRemoteDocsWithMeta\<close> and \<^verbatim>\<open>downloadDoc\<close>, which read the
  remote as the connection left it, \<open>None\<close> being a document that is absent;
  \<open>rc_upload i d\<close> is \<^verbatim>\<open>uploadDoc\<close> of the document with id \<open>i\<close> and value \<open>d\<close>, and
  \<open>rc_delete i\<close> is \<^verbatim>\<open>deleteDoc(i)\<close>.
\<close>

record ('d, 'w) RemoteClient =
  rc_connect :: "'w \<Rightarrow> (error + unit) \<times> 'w"
  rc_list :: "'w \<Rightarrow> error + RemoteFileMeta list"
  rc_download :: "'w \<Rightarrow> string \<Rightarrow> error + 'd option"
  rc_upload :: "string \<Rightarrow> 'd \<Rightarrow> 'w \<Rightarrow> (error + unit) \<times> 'w"
  rc_delete :: "string \<Rightarrow> 'w \<Rightarrow> (error + unit) \<times> 'w"

text \<open>
  Modelled from the spec: the local state the engine works on (sections 3 and 4): the
  Document Store's documents by id, the Sync Queue, the ``last recorded sync
  checkpoint'' of each id, the Conflict Store and \<^verbatim>\<open>lastSyncTime\<close>.
\<close>

record 'd local_state =
  documents :: "string \<Rightarrow> 'd option"
  syncQueue :: "SyncQueueItem list"
  checkpoint :: "string \<Rightarrow> int option"
  conflictStore :: "'d ConflictRecord list"
  syncedAt :: int

text \<open>
  Modelled from the spec: the state of a cycle under way (section 4.5): the local
  state, the tally that becomes the \<^verbatim>\<open>SyncResult\<close>, and the ids found in conflict.
\<close>

record 'd cycle =
  local :: "'d local_state"
  tally :: SyncResult
  conflicted :: "string list"

text \<open>
  Modelled from the spec (step 2): a remote id is pulled when its ``\<^verbatim>\<open>lastModified\<close> is
  newer than the last recorded sync checkpoint for that id (or unknown locally)''.
\<close>

definition needs_pull :: "'d local_state \<Rightarrow> RemoteFileMeta \<Rightarrow> bool" where
  "needs_pull st m =
     (case checkpoint st (meta_docId m) of None \<Rightarrow> True | Some t \<Rightarrow> t < lastModified m)"

text \<open>
  Modelled from the spec (step 3): ``a Sync Queue entry for the same id is currently
  pending'' and ``its content differs from the pulled remote content''. \<open>content\<close>
  reads the content of a document.
\<close>

definition pending :: "'d local_state \<Rightarrow> string \<Rightarrow> bool" where
  "pending st i \<longleftrightarrow> i \<in> set (map item_docId (syncQueue st))"

definition differs :: "('d \<Rightarrow> 'c) \<Rightarrow> 'd option \<Rightarrow> 'd \<Rightarrow> bool" where
  "differs content l r \<longleftrightarrow> map_option content l \<noteq> Some (content r)"

text \<open>
  Modelled from the spec (steps 2 and 3), for one entry of the remote listing:
  ``download and attempt local application''; on a conflict ``do not apply the pull
  \<dots> instead create a \<^verbatim>\<open>ConflictRecord{docId, localDoc, remoteDoc, timestamp}\<close> and
  leave the local document as the working copy''. A failed download counts as an
  error of that document and the cycle goes on.
\<close>

definition pull_one ::
  "('d, 'w) RemoteClient \<Rightarrow> ('d \<Rightarrow> 'c) \<Rightarrow> int \<Rightarrow> 'w \<Rightarrow> RemoteFileMeta \<Rightarrow> 'd cycle \<Rightarrow> 'd cycle" where
  "pull_one rc content now w m cy =
     (let st = local cy; i = meta_docId m in
      if \<not> needs_pull st m then cy
      else
        (case rc_download rc w i of
           Inl e \<Rightarrow> cy\<lparr>tally := (tally cy)\<lparr>errors := errors (tally cy) + 1\<rparr>\<rparr>
         | Inr None \<Rightarrow> cy
         | Inr (Some rd) \<Rightarrow>
             if pending st i \<and> differs content (documents st i) rd then
               cy\<lparr>local := st\<lparr>conflictStore := conflictStore st @
                        [\<lparr>conflict_docId = i, localDoc = documents st i, remoteDoc = rd,
                          conflict_timestamp = now\<rparr>]\<rparr>,
                  tally := (tally cy)\<lparr>conflicts := conflicts (tally cy) + 1\<rparr>,
                  conflicted := conflicted cy @ [i]\<rparr>
             else
               cy\<lparr>local := st\<lparr>documents := (documents st)(i \<mapsto> rd),
                               checkpoint := (checkpoint st)(i \<mapsto> lastModified m)\<rparr>,
                  tally := (tally cy)\<lparr>downloaded := downloaded (tally cy) + 1\<rparr>\<rparr>))"

text \<open>
  Modelled from the spec (step 4 and section 4.3), for one queue entry: ``upload
  (\<^verbatim>\<open>put\<close>) or delete (\<^verbatim>\<open>remove\<close>) the corresponding document via the Remote Client; on
  success remove the queue entry and advance its checkpoint; on failure increment
  \<^verbatim>\<open>retryCount\<close> and leave it queued''; an entry over the retry cap ``is reported as a
  sync error and held''. A \<^verbatim>\<open>put\<close> entry whose document is gone is an error of that
  document.
\<close>

definition push_one ::
  "('d, 'w) RemoteClient \<Rightarrow> nat \<Rightarrow> int \<Rightarrow> SyncQueueItem \<Rightarrow> 'd cycle \<times> 'w \<Rightarrow> 'd cycle \<times> 'w" where
  "push_one rc maxRetries now e cw =
     (case cw of (cy, w) \<Rightarrow>
      (let st = local cy; i = item_docId e;
           failed = cy\<lparr>tally := (tally cy)\<lparr>errors := errors (tally cy) + 1\<rparr>\<rparr>
       in
       if maxRetries < retryCount e then (failed, w)
       else
         (case (case operation e of
                  Put \<Rightarrow> (case documents st i of
                            None \<Rightarrow> None
                          | Some d \<Rightarrow> Some (rc_upload rc i d w))
                | Remove \<Rightarrow> Some (rc_delete rc i w)) of
            None \<Rightarrow> (failed, w)
          | Some (Inr _, w') \<Rightarrow>
              (cy\<lparr>local := st\<lparr>syncQueue := filter (\<lambda>x. item_docId x \<noteq> i) (syncQueue st),
                               checkpoint := (checkpoint st)(i \<mapsto> now)\<rparr>,
                  tally := (tally cy)\<lparr>uploaded := uploaded (tally cy) + 1\<rparr>\<rparr>, w')
          | Some (Inl err, w') \<Rightarrow>
              (failed\<lparr>local := st\<lparr>syncQueue :=
                             map (\<lambda>x. if item_docId x = i
                                       then x\<lparr>retryCount := retryCount x + 1\<rparr> else x)
                               (syncQueue st)\<rparr>\<rparr>, w'))))"

text \<open>
  Modelled from the spec (step 4): the push goes over ``every remaining
  (non-conflicted) Sync Queue entry''.
\<close>

definition pushable :: "'d cycle \<Rightarrow> SyncQueueItem list" where
  "pushable cy = filter (\<lambda>e. item_docId e \<notin> set (conflicted cy)) (syncQueue (local cy))"

text \<open>Modelled from the spec: the tally a cycle starts with.\<close>

definition no_result :: SyncResult where
  "no_result = \<lparr>uploaded = 0, downloaded = 0, conflicts = 0, errors = 0\<rparr>"

text \<open>
  Modelled from the spec (section 4.5): one cycle. A failed connection aborts it
  ``without touching local state'' (\<open>Inl\<close>); otherwise the listing is pulled entry by
  entry, the remaining queue entries are pushed, \<^verbatim>\<open>lastSyncTime\<close> is set and the
  \<^verbatim>\<open>SyncResult\<close> returned. A listing that fails is an error of the cycle's tally and
  nothing is pulled. The attachment pass (step 5) works on the attachments directory
  and on no document, queue entry or conflict record; it is left out. The result is
  the outcome, the local state and the remote as the cycle leaves them.
\<close>

definition syncCycle ::
  "('d, 'w) RemoteClient \<Rightarrow> ('d \<Rightarrow> 'c) \<Rightarrow> nat \<Rightarrow> int \<Rightarrow> 'd local_state \<Rightarrow> 'w \<Rightarrow>
   (error + SyncResult) \<times> 'd local_state \<times> 'w" where
  "syncCycle rc content maxRetries now st w =
     (case rc_connect rc w of
        (Inl e, w1) \<Rightarrow> (Inl e, st, w1)
      | (Inr _, w1) \<Rightarrow>
          (let start = \<lparr>local = st, tally = no_result, conflicted = []\<rparr>;
               pulled = (case rc_list rc w1 of
                           Inl e \<Rightarrow> start\<lparr>tally := no_result\<lparr>errors := 1\<rparr>\<rparr>
                         | Inr metas \<Rightarrow> fold (pull_one rc content now w1) metas start)
           in case fold (push_one rc maxRetries now) (pushable pulled) (pulled, w1) of
                (done, w2) \<Rightarrow> (Inr (tally done), (local done)\<lparr>syncedAt := now\<rparr>, w2)))"

subsection \<open>What a cycle asks the Remote Client to write\<close>

text \<open>
  To say what a cycle did not push, the Remote Client is made to keep a journal: the
  remote of \<open>journalled rc\<close> is the remote of \<open>rc\<close> together with the uploads and
  deletions asked of it so far, in order, whatever their outcome. The engine sees the
  remote only through the client, so the journal holds every write it attempts.
\<close>

datatype 'd remote_write = UploadDoc string 'd | DeleteDoc string

fun written_id :: "'d remote_write \<Rightarrow> string" where
  "written_id (UploadDoc i d) = i"
| "written_id (DeleteDoc i) = i"

definition journalled ::
  "('d, 'w) RemoteClient \<Rightarrow> ('d, 'w \<times> 'd remote_write list) RemoteClient" where
  "journalled rc =
     \<lparr>rc_connect = (\<lambda>(w, j). case rc_connect rc w of (res, w') \<Rightarrow> (res, (w', j))),
      rc_list = (\<lambda>(w, j). rc_list rc w),
      rc_download = (\<lambda>(w, j). rc_download rc w),
      rc_upload = (\<lambda>i d (w, j).
                     case rc_upload rc i d w of (res, w') \<Rightarrow> (res, (w', j @ [UploadDoc i d]))),
      rc_delete = (\<lambda>i (w, j).
                     case rc_delete rc i w of (res, w') \<Rightarrow> (res, (w', j @ [DeleteDoc i])))\<rparr>"

text \<open>The remote that a write leaves, and the remote after a journal of writes.\<close>

fun apply_write :: "('d, 'w) RemoteClient \<Rightarrow> 'd remote_write \<Rightarrow> 'w \<Rightarrow> 'w" where
  "apply_write rc (UploadDoc i d) w = snd (rc_upload rc i d w)"
| "apply_write rc (DeleteDoc i) w = snd (rc_delete rc i w)"

text \<open>The writes that pushing a queue entry asks for, in a given state of the cycle.\<close>

definition entry_writes :: "nat \<Rightarrow> 'd cycle \<Rightarrow> SyncQueueItem \<Rightarrow> 'd remote_write list" where
  "entry_writes maxRetries cy e =
     (if maxRetries < retryCount e then []
      else
        (case operation e of
           Put \<Rightarrow> (case documents (local cy) (item_docId e) of
                     None \<Rightarrow> []
                   | Some d \<Rightarrow> [UploadDoc (item_docId e) d])
         | Remove \<Rightarrow> [DeleteDoc (item_docId e)]))"

text \<open>
  The engine on the WebDAV client of the sources: \<^verbatim>\<open>uploadDoc\<close> reads the id from the
  document it is given, and a download that returns \<^verbatim>\<open>null\<close> is an absent document.
\<close>

definition webdav_remote ::
  "'d platform \<Rightarrow> 'r WebDAVClient \<Rightarrow> ('d, 'r world) RemoteClient" where
  "webdav_remote js c =
     \<lparr>rc_connect = (\<lambda>w. case testConnection (Some c) w of
                           (Inl e, w') \<Rightarrow> (Inl e, w')
                         | (Inr _, w') \<Rightarrow> (Inr (), w')),
      rc_list = (\<lambda>w. fst (listRemoteDocsWithMeta (Some c) w)),
      rc_download = (\<lambda>w i. case fst (downloadDoc js (Some c) i w) of
                              Inl e \<Rightarrow> Inl e
                            | Inr d \<Rightarrow> Inr (if d = js_null js then None else Some d)),
      rc_upload = (\<lambda>i d. uploadDoc js (Some c) d),
      rc_delete = deleteDoc (Some c)\<rparr>"

section \<open>Examples to run the definitions on\<close>

definition demo_config :: SyncConfig where
  "demo_config =
     \<lparr>enabled = True, serverUrl = ''https://dav.example/remote.php'', username = ''ann'',
      password = ''secret'', syncInterval = 300, lastSyncTime = 0, deviceId = ''device-1''\<rparr>"

definition demo_client :: "dav_server WebDAVClient" where
  "demo_client =
     dav_createClient (serverUrl demo_config) (username demo_config) (password demo_config)"

text \<open>A server as a successful \<open>init\<close> leaves it, with no document yet.\<close>

definition demo_server :: dav_server where
  "demo_server =
     \<lparr>online = True, accounts = [(''ann'', ''secret'')],
      collections = [''/ztools-sync'', ''/ztools-sync/attachments''],
      files = [], clock = 0\<rparr>"

definition demo_world :: "dav_server world" where
  "demo_world = \<lparr>remote = demo_server, trace = []\<rparr>"

text \<open>The same server while it cannot be reached.\<close>

definition offline_world :: "dav_server world" where
  "offline_world = \<lparr>remote = demo_server\<lparr>online := False\<rparr>, trace = []\<rparr>"

text \<open>A server that has never been synchronised with.\<close>

definition fresh_world :: "dav_server world" where
  "fresh_world =
     \<lparr>remote = \<lparr>online = True, accounts = [(''ann'', ''secret'')], collections = [],
                 files = [], clock = 0\<rparr>,
      trace = []\<rparr>"

definition demo_doc :: flat_doc where
  "demo_doc = Object [(''_id'', ''notes/2024 plan''), (''_rev'', ''3-0f''), (''title'', ''Plan'')]"

text \<open>
  An id with a lone surrogate: the text \<^verbatim>\<open>note\<close>, a space and the high surrogate
  \<^verbatim>\<open>U+D83D\<close>, as a string is left when it is cut in the middle of an emoji. And a
  document with that id.
\<close>

definition cut_id :: string where
  "cut_id = ''note '' @ [CHR 0xED, CHR 0xA0, CHR 0xBD]"

definition cut_doc :: flat_doc where
  "cut_doc = Object [(''_id'', cut_id), (''title'', ''Untitled'')]"

text \<open>The world after \<open>demo_doc\<close> has been uploaded to the demo server.\<close>

definition stored_world :: "dav_server world" where
  "stored_world = snd (uploadDoc flat_platform (Some demo_client) demo_doc demo_world)"

text \<open>The demo server with a document file that holds the text \<^verbatim>\<open>null\<close>.\<close>

definition null_world :: "dav_server world" where
  "null_world =
     snd (call (PutFileContents ''/ztools-sync/void.json'' ''null'')
            (putFileContents demo_client ''/ztools-sync/void.json'' ''null'') demo_world)"

text \<open>An attachment of the demo document, with and without its metadata sidecar.\<close>

definition demo_blob :: bytes where
  "demo_blob = [CHR 0x89, CHR ''P'', CHR ''N'', CHR ''G'', CHR 0x00, CHR 0xFF]"

definition demo_meta :: flat_doc where
  "demo_meta = Object [(''content_type'', ''image/png'')]"

definition attached_world :: "dav_server world" where
  "attached_world =
     snd (uploadAttachment flat_platform (Some demo_client) ''notes/2024 plan'' demo_blob
            (Some demo_meta) demo_world)"

definition bare_attached_world :: "dav_server world" where
  "bare_attached_world =
     snd (uploadAttachment flat_platform (Some demo_client) ''notes/2024 plan'' demo_blob
            None demo_world)"

text \<open>The attachment with a sidecar that is not JSON.\<close>

definition garbled_attached_world :: "dav_server world" where
  "garbled_attached_world =
     snd (call (PutFileContents (attachmentMetaPath ''notes/2024 plan'') ''{oops'')
            (putFileContents demo_client (attachmentMetaPath ''notes/2024 plan'') ''{oops'')
            bare_attached_world)"

text \<open>The fresh server once the sync directory alone has been created.\<close>

definition half_made_server :: dav_server where
  "half_made_server =
     \<lparr>online = True, accounts = [(''ann'', ''secret'')], collections = [''/ztools-sync''],
      files = [], clock = 0\<rparr>"

text \<open>A document whose id holds the text \<^verbatim>\<open>.json\<close> before its end, and the world after its upload.\<close>

definition dotted_doc :: flat_doc where
  "dotted_doc = Object [(''_id'', ''a.json.b''), (''title'', ''Export settings'')]"

definition dotted_world :: "dav_server world" where
  "dotted_world = snd (uploadDoc flat_platform (Some demo_client) dotted_doc demo_world)"

text \<open>A second document, whose id is what the listing makes of the first one's file.\<close>

definition twin_doc :: flat_doc where
  "twin_doc = Object [(''_id'', ''a.b.json''), (''title'', ''Unrelated'')]"

definition twin_world :: "dav_server world" where
  "twin_world = snd (uploadDoc flat_platform (Some demo_client) twin_doc dotted_world)"

subsection \<open>A conflict\<close>

text \<open>The content of a flat document: its properties other than the id and the revision.\<close>

fun flat_content :: "flat_doc \<Rightarrow> (string \<times> string) list" where
  "flat_content Null = []"
| "flat_content (Object d) = filter (\<lambda>(k, v). k \<noteq> ''_id'' \<and> k \<noteq> ''_rev'') d"

text \<open>
  The local side: the plan has been edited since the last sync (the remote holds
  \<open>demo_doc\<close>, uploaded from another device after the checkpoint), and a new document
  waits to be pushed.
\<close>

definition local_plan :: flat_doc where
  "local_plan = Object [(''_id'', ''notes/2024 plan''), (''_rev'', ''4-aa''), (''title'', ''Plan, revised'')]"

definition todo_doc :: flat_doc where
  "todo_doc = Object [(''_id'', ''todo''), (''_rev'', ''1-bb''), (''title'', ''Buy milk'')]"

definition demo_local :: "flat_doc local_state" where
  "demo_local =
     \<lparr>documents = [''notes/2024 plan'' \<mapsto> local_plan, ''todo'' \<mapsto> todo_doc],
      syncQueue =
        [\<lparr>item_docId = ''notes/2024 plan'', operation = Put, timestamp = 5, retryCount = 0\<rparr>,
         \<lparr>item_docId = ''todo'', operation = Put, timestamp = 6, retryCount = 0\<rparr>],
      checkpoint = [''notes/2024 plan'' \<mapsto> 0],
      conflictStore = [],
      syncedAt = 0\<rparr>"

definition demo_remote :: "(flat_doc, dav_server world) RemoteClient" where
  "demo_remote = webdav_remote flat_platform demo_client"

definition demo_cycle ::
  "(error + SyncResult) \<times> flat_doc local_state \<times> dav_server world \<times> flat_doc remote_write list" where
  "demo_cycle = syncCycle (journalled demo_remote) flat_content 3 100 demo_local (stored_world, [])"

text \<open>
  The same remote after a file that is no document's has been put into the sync
  directory: its name is not a percent-encoded text, and the listing rejects with the
  \<^verbatim>\<open>URIError\<close> of \<^verbatim>\<open>decodeURIComponent\<close>.
\<close>

definition stray_world :: "dav_server world" where
  "stray_world =
     snd (call (PutFileContents ''/ztools-sync/100%.json'' ''{}'')
            (putFileContents demo_client ''/ztools-sync/100%.json'' ''{}'') stored_world)"

definition stray_cycle ::
  "(error + SyncResult) \<times> flat_doc local_state \<times> dav_server world \<times> flat_doc remote_write list" where
  "stray_cycle = syncCycle (journalled demo_remote) flat_content 3 100 demo_local (stray_world, [])"

text \<open>The same remote while the server cannot be reached.\<close>

definition unreachable_world :: "dav_server world" where
  "unreachable_world = stored_world\<lparr>remote := (remote stored_world)\<lparr>online := False\<rparr>\<rparr>"

definition aborted_cycle ::
  "(error + SyncResult) \<times> flat_doc local_state \<times> dav_server world \<times> flat_doc remote_write list" where
  "aborted_cycle =
     syncCycle (journalled demo_remote) flat_content 3 100 demo_local (unreachable_world, [])"

text \<open>A Remote Client on the same server whose downloads get no response.\<close>

definition deaf_remote :: "(flat_doc, dav_server world) RemoteClient" where
  "deaf_remote = demo_remote\<lparr>rc_download := (\<lambda>w i. Inl NetworkError)\<rparr>"

definition deaf_cycle ::
  "(error + SyncResult) \<times> flat_doc local_state \<times> dav_server world \<times> flat_doc remote_write list" where
  "deaf_cycle = syncCycle (journalled deaf_remote) flat_content 3 100 demo_local (stored_world, [])"

text \<open>
  A local edit of the document with id \<^verbatim>\<open>a.json.b\<close>, whose remote version another device
  has uploaded since the last sync.
\<close>

definition dotted_edit :: flat_doc where
  "dotted_edit = Object [(''_id'', ''a.json.b''), (''title'', ''Export settings, local'')]"

definition dotted_local :: "flat_doc local_state" where
  "dotted_local =
     \<lparr>documents = [''a.json.b'' \<mapsto> dotted_edit],
      syncQueue = [\<lparr>item_docId = ''a.json.b'', operation = Put, timestamp = 5, retryCount = 0\<rparr>],
      checkpoint = [''a.json.b'' \<mapsto> 0],
      conflictStore = [],
      syncedAt = 0\<rparr>"

definition dotted_cycle ::
  "(error + SyncResult) \<times> flat_doc local_state \<times> dav_server world \<times> flat_doc remote_write list" where
  "dotted_cycle = syncCycle (journalled demo_remote) flat_content 3 100 dotted_local (dotted_world, [])"

section \<open>Properties of the remote client\<close>

lemmas promise_defs = resolve_def reject_def await_def try_catch_def call_def

subsection \<open>The methods on a well-formed id\<close>

text \<open>
  For an id that \<^verbatim>\<open>encodeURIComponent\<close> accepts, each method is its body on the paths of
  that id.
\<close>

lemma uploadDoc_valid:
  "prop_id js doc = Inr docId \<Longrightarrow> utf8_valid docId \<Longrightarrow>
   uploadDoc js (Some c) doc =
     (case JSON_stringify js doc of
        Inl e \<Rightarrow> reject e
      | Inr content \<Rightarrow>
          try_catch
            (call (PutFileContents (docPath docId) content)
               (putFileContents c (docPath docId) content))
            (\<lambda>error. reject error))"
  unfolding uploadDoc_def encodeURIComponent_def docPath_def Let_def by simp

lemma downloadDoc_valid:
  "utf8_valid docId \<Longrightarrow>
   downloadDoc js (Some c) docId =
     await (call (Exists (docPath docId)) (exists c (docPath docId))) (\<lambda>exists'.
     if \<not> exists' then resolve (js_null js)
     else
       await (call (GetFileContents (docPath docId)) (getFileContents c (docPath docId)))
         (\<lambda>content.
            case JSON_parse js content of
              Inl e \<Rightarrow> reject e
            | Inr d \<Rightarrow> resolve d))"
  unfolding downloadDoc_def encodeURIComponent_def docPath_def Let_def by simp

lemma deleteDoc_valid:
  "utf8_valid docId \<Longrightarrow>
   deleteDoc (Some c) docId = call (DeleteFile (docPath docId)) (deleteFile c (docPath docId))"
  unfolding deleteDoc_def encodeURIComponent_def docPath_def Let_def by simp

lemma deleteAttachment_valid:
  "utf8_valid docId \<Longrightarrow>
   deleteAttachment (Some c) docId =
     await (call (Exists (attachmentDataPath docId)) (exists c (attachmentDataPath docId)))
       (\<lambda>exists'.
          if exists'
          then call (DeleteFile (attachmentDataPath docId)) (deleteFile c (attachmentDataPath docId))
          else resolve ())"
  unfolding deleteAttachment_def encodeURIComponent_def attachmentDataPath_def Let_def by simp

lemma downloadAttachment_valid:
  "utf8_valid docId \<Longrightarrow>
   downloadAttachment js (Some c) docId =
     await (call (Exists (attachmentDataPath docId)) (exists c (attachmentDataPath docId)))
       (\<lambda>dataExists.
          if \<not> dataExists then resolve None
          else
            await (call (GetFileContents (attachmentDataPath docId))
                     (getFileContents c (attachmentDataPath docId)))
              (\<lambda>buf.
                 await
                   (try_catch
                      (await (call (Exists (attachmentMetaPath docId))
                                (exists c (attachmentMetaPath docId)))
                         (\<lambda>metaExists.
                            if metaExists then
                              await (call (GetFileContents (attachmentMetaPath docId))
                                       (getFileContents c (attachmentMetaPath docId)))
                                (\<lambda>metaContent.
                                   case JSON_parse js metaContent of
                                     Inl e \<Rightarrow> reject e
                                   | Inr m \<Rightarrow> resolve (Some m))
                            else resolve None))
                      (\<lambda>error. resolve None))
                   (\<lambda>meta. resolve (Some \<lparr>data = buf, metadata = meta\<rparr>))))"
  unfolding downloadAttachment_def encodeURIComponent_def attachmentDataPath_def
    attachmentMetaPath_def Let_def
  by simp

lemma lone_surrogate_rejected:
  assumes "\<not> utf8_valid docId"
  shows "downloadDoc js (Some c) docId w = (Inl URIError, w)"
    and "deleteDoc (Some c) docId w = (Inl URIError, w)"
    and "uploadAttachment js (Some c) docId buf meta w = (Inl URIError, w)"
    and "downloadAttachment js (Some c) docId w = (Inl URIError, w)"
    and "deleteAttachment (Some c) docId w = (Inl URIError, w)"
    and "prop_id js doc = Inr docId \<Longrightarrow> uploadDoc js (Some c) doc w = (Inl URIError, w)"
  using assms
  by (simp_all add: downloadDoc_def deleteDoc_def uploadAttachment_def downloadAttachment_def
      deleteAttachment_def uploadDoc_def encodeURIComponent_def reject_def)

text \<open>
  C8, as the code has it. The guard of every remote operation tests the field, and the
  field is null until \<open>init\<close> is called: while it is null, each of the nine operations
  rejects with the guard's error and leaves the world, the remote and the trace of
  calls alike, exactly as it was. (Once \<open>init\<close> has been called the field holds a
  handle, whether or not \<open>init\<close> succeeded; see the counterexample below.)
\<close>

theorem null_client_rejects_without_io:
  "testConnection None w = (Inl NotInitialized, w)
   \<and> uploadDoc js None doc w = (Inl NotInitialized, w)
   \<and> downloadDoc js None docId w = (Inl NotInitialized, w)
   \<and> listRemoteDocsWithMeta None w = (Inl NotInitialized, w)
   \<and> deleteDoc None docId w = (Inl NotInitialized, w)
   \<and> uploadAttachment js None docId buf meta w = (Inl NotInitialized, w)
   \<and> downloadAttachment js None docId w = (Inl NotInitialized, w)
   \<and> deleteAttachment None docId w = (Inl NotInitialized, w)
   \<and> listRemoteAttachments None w = (Inl NotInitialized, w)"
  by (simp add: testConnection_def uploadDoc_def downloadDoc_def listRemoteDocsWithMeta_def
      deleteDoc_def uploadAttachment_def downloadAttachment_def deleteAttachment_def
      listRemoteAttachments_def reject_def)

text \<open>
  C8, as the claim states it, fails: \<open>init\<close> assigns the field before it tests the
  connection. Here \<open>init\<close> is called while the server cannot be reached and rejects;
  the object keeps the handle, and once the server can be reached again \<open>uploadDoc\<close> on
  the same object writes the document and resolves, although \<open>init\<close> never succeeded.
\<close>

theorem failed_init_leaves_usable_client:
  "fst (init dav_createClient demo_config None offline_world) = Inl (ConnectionFailed NetworkError)
   \<and> fst (uploadDoc flat_platform
            (fst (snd (init dav_createClient demo_config None offline_world))) demo_doc demo_world)
       = Inr ()
   \<and> trace (snd (uploadDoc flat_platform
            (fst (snd (init dav_createClient demo_config None offline_world))) demo_doc demo_world))
       = [PutFileContents ''/ztools-sync/notes%2F2024%20plan.json''
            (projr (flat_stringify demo_doc))]
   \<and> is_file (remote (snd (uploadDoc flat_platform
            (fst (snd (init dav_createClient demo_config None offline_world))) demo_doc demo_world)))
         ''/ztools-sync/notes%2F2024%20plan.json''"
  by code_simp

text \<open>
  C6, as the code has it. \<open>downloadDoc\<close> on an assigned client first escapes the id. For
  an id that is a well-formed string it asks the transport whether the document's path
  exists. When the answer is no it resolves to \<^verbatim>\<open>null\<close>, having made that one call (it is
  not an error, and nothing is fetched); when the answer is yes it fetches the file and
  returns what \<^verbatim>\<open>JSON.parse\<close> makes of the text, as it is: the parsed value, \<^verbatim>\<open>null\<close> when
  the text is \<^verbatim>\<open>null\<close>, or the parser's error. For an id with a lone surrogate it
  rejects with \<^verbatim>\<open>URIError\<close> and makes no call.
\<close>

theorem downloadDoc_absent_or_parsed:
  "(utf8_valid docId \<longrightarrow>
      (\<forall>r1. exists c (docPath docId) (remote w) = (Inr False, r1) \<longrightarrow>
         downloadDoc js (Some c) docId w
           = (Inr (js_null js), \<lparr>remote = r1, trace = trace w @ [Exists (docPath docId)]\<rparr>))
      \<and> (\<forall>r1 r2 content.
           exists c (docPath docId) (remote w) = (Inr True, r1)
           \<and> getFileContents c (docPath docId) r1 = (Inr content, r2) \<longrightarrow>
           downloadDoc js (Some c) docId w
             = (JSON_parse js content,
                \<lparr>remote = r2,
                 trace = trace w @ [Exists (docPath docId), GetFileContents (docPath docId)]\<rparr>)))
   \<and> (\<not> utf8_valid docId \<longrightarrow> downloadDoc js (Some c) docId w = (Inl URIError, w))"
proof (intro conjI allI impI; (elim conjE)?)
  fix r1
  assume "utf8_valid docId" "exists c (docPath docId) (remote w) = (Inr False, r1)"
  then show "downloadDoc js (Some c) docId w
      = (Inr (js_null js), \<lparr>remote = r1, trace = trace w @ [Exists (docPath docId)]\<rparr>)"
    by (simp add: downloadDoc_valid promise_defs)
next
  fix r1 r2 content
  assume "utf8_valid docId" "exists c (docPath docId) (remote w) = (Inr True, r1)"
    "getFileContents c (docPath docId) r1 = (Inr content, r2)"
  then show "downloadDoc js (Some c) docId w
      = (JSON_parse js content,
         \<lparr>remote = r2,
          trace = trace w @ [Exists (docPath docId), GetFileContents (docPath docId)]\<rparr>)"
    by (simp add: downloadDoc_valid promise_defs split: sum.splits)
next
  assume "\<not> utf8_valid docId"
  then show "downloadDoc js (Some c) docId w = (Inl URIError, w)"
    by (rule lone_surrogate_rejected)
qed

text \<open>
  On the demo server: a document that is not there, one that is, and a file that holds
  the text \<^verbatim>\<open>null\<close>.
\<close>

theorem downloadDoc_absent_or_parsed_witness:
  "downloadDoc flat_platform (Some demo_client) ''ghost'' demo_world
     = (Inr Null, \<lparr>remote = demo_server, trace = [Exists ''/ztools-sync/ghost.json'']\<rparr>)
   \<and> fst (downloadDoc flat_platform (Some demo_client) ''notes/2024 plan'' stored_world)
       = Inr demo_doc
   \<and> fst (downloadDoc flat_platform (Some demo_client) ''void'' null_world) = Inr Null"
proof -
  have valid: "utf8_valid ''ghost''" "utf8_valid ''notes/2024 plan''" "utf8_valid ''void''"
    by code_simp+
  have absent: "exists demo_client (docPath ''ghost'') (remote demo_world) = (Inr False, demo_server)"
    by code_simp
  have present: "exists demo_client (docPath ''notes/2024 plan'') (remote stored_world)
      = (Inr True, remote stored_world)"
    by code_simp
  have got: "getFileContents demo_client (docPath ''notes/2024 plan'') (remote stored_world)
      = (Inr (projr (flat_stringify demo_doc)), remote stored_world)"
    by code_simp
  have parsed: "JSON_parse flat_platform (projr (flat_stringify demo_doc)) = Inr demo_doc"
    by code_simp
  have void: "exists demo_client (docPath ''void'') (remote null_world) = (Inr True, remote null_world)"
    "getFileContents demo_client (docPath ''void'') (remote null_world)
       = (Inr ''null'', remote null_world)"
    "JSON_parse flat_platform ''null'' = Inr Null"
    by code_simp+
  have path: "docPath ''ghost'' = ''/ztools-sync/ghost.json''" and t: "trace demo_world = []"
    and null: "js_null flat_platform = Null"
    by code_simp+
  from downloadDoc_absent_or_parsed
    [where docId = "''ghost''" and c = demo_client and w = demo_world and js = flat_platform]
    valid(1) absent path t null
  have one: "downloadDoc flat_platform (Some demo_client) ''ghost'' demo_world
     = (Inr Null, \<lparr>remote = demo_server, trace = [Exists ''/ztools-sync/ghost.json'']\<rparr>)"
    by simp
  from downloadDoc_absent_or_parsed
    [where docId = "''notes/2024 plan''" and c = demo_client and w = stored_world
      and js = flat_platform]
    valid(2) present got parsed
  have two: "fst (downloadDoc flat_platform (Some demo_client) ''notes/2024 plan'' stored_world)
       = Inr demo_doc"
    by simp
  from downloadDoc_absent_or_parsed
    [where docId = "''void''" and c = demo_client and w = null_world and js = flat_platform]
    valid(3) void
  have three: "fst (downloadDoc flat_platform (Some demo_client) ''void'' null_world) = Inr Null"
    by simp
  from one two three show ?thesis by simp
qed

text \<open>
  C6, as the claim states it, fails for an id that is not a well-formed string. The
  demo server holds no file at all, so no path of this id exists there; \<open>downloadDoc\<close>
  of the id with a lone surrogate does not return \<^verbatim>\<open>null\<close>: \<^verbatim>\<open>encodeURIComponent\<close> throws,
  and the method rejects before it has asked the transport anything.
\<close>

theorem downloadDoc_rejects_lone_surrogate:
  "\<not> utf8_valid cut_id
   \<and> files (remote demo_world) = []
   \<and> encodeURIComponent cut_id = Inl URIError
   \<and> downloadDoc flat_platform (Some demo_client) cut_id demo_world = (Inl URIError, demo_world)"
  by code_simp

text \<open>
  What the \<^verbatim>\<open>try\<close> block of \<open>downloadAttachment\<close> leaves in \<^verbatim>\<open>metadata\<close>: it never
  rejects.
\<close>

lemma sidecar_read_never_rejects:
  "\<exists>meta w'.
     try_catch
       (await (call (Exists mp) (exists c mp)) (\<lambda>metaExists.
        if metaExists then
          await (call (GetFileContents mp) (getFileContents c mp)) (\<lambda>metaContent.
          case JSON_parse js metaContent of
            Inl e \<Rightarrow> reject e
          | Inr m \<Rightarrow> resolve (Some m))
        else resolve None))
       (\<lambda>error. resolve None) w = (Inr meta, w')"
  by (auto simp add: promise_defs split: prod.splits sum.splits)

text \<open>
  C10, as the code has it. Let the id be a well-formed string. When the transport says
  the binary payload exists and hands it over, \<open>downloadAttachment\<close> resolves to that
  payload whatever happens to the sidecar: the metadata is undefined when asking for
  the sidecar fails, when the sidecar does not exist, when fetching it fails and when
  its text is not JSON, and it is the parsed value otherwise. When the transport says
  the payload does not exist, the method resolves to null after that one call. For an
  id with a lone surrogate the method rejects with \<^verbatim>\<open>URIError\<close> and makes no call.
\<close>

theorem downloadAttachment_survives_metadata_failure:
  "(utf8_valid docId \<longrightarrow>
     (\<forall>r1 r2 buf.
        exists c (attachmentDataPath docId) (remote w) = (Inr True, r1)
        \<and> getFileContents c (attachmentDataPath docId) r1 = (Inr buf, r2) \<longrightarrow>
        (\<exists>meta. fst (downloadAttachment js (Some c) docId w)
                  = Inr (Some \<lparr>data = buf, metadata = meta\<rparr>))
        \<and> (\<forall>e. fst (exists c (attachmentMetaPath docId) r2) = Inl e \<longrightarrow>
               fst (downloadAttachment js (Some c) docId w)
                 = Inr (Some \<lparr>data = buf, metadata = None\<rparr>))
        \<and> (fst (exists c (attachmentMetaPath docId) r2) = Inr False \<longrightarrow>
               fst (downloadAttachment js (Some c) docId w)
                 = Inr (Some \<lparr>data = buf, metadata = None\<rparr>))
        \<and> (\<forall>r3 e. exists c (attachmentMetaPath docId) r2 = (Inr True, r3)
               \<and> fst (getFileContents c (attachmentMetaPath docId) r3) = Inl e \<longrightarrow>
               fst (downloadAttachment js (Some c) docId w)
                 = Inr (Some \<lparr>data = buf, metadata = None\<rparr>))
        \<and> (\<forall>r3 metaContent e. exists c (attachmentMetaPath docId) r2 = (Inr True, r3)
               \<and> fst (getFileContents c (attachmentMetaPath docId) r3) = Inr metaContent
               \<and> JSON_parse js metaContent = Inl e \<longrightarrow>
               fst (downloadAttachment js (Some c) docId w)
                 = Inr (Some \<lparr>data = buf, metadata = None\<rparr>))
        \<and> (\<forall>r3 metaContent m. exists c (attachmentMetaPath docId) r2 = (Inr True, r3)
               \<and> fst (getFileContents c (attachmentMetaPath docId) r3) = Inr metaContent
               \<and> JSON_parse js metaContent = Inr m \<longrightarrow>
               fst (downloadAttachment js (Some c) docId w)
                 = Inr (Some \<lparr>data = buf, metadata = Some m\<rparr>)))
     \<and> (\<forall>r1. exists c (attachmentDataPath docId) (remote w) = (Inr False, r1) \<longrightarrow>
            downloadAttachment js (Some c) docId w
              = (Inr None, \<lparr>remote = r1, trace = trace w @ [Exists (attachmentDataPath docId)]\<rparr>)))
   \<and> (\<not> utf8_valid docId \<longrightarrow> downloadAttachment js (Some c) docId w = (Inl URIError, w))"
proof (intro conjI allI impI; (elim conjE)?)
  fix r1 r2 buf
  assume valid: "utf8_valid docId"
    and payload: "exists c (attachmentDataPath docId) (remote w) = (Inr True, r1)"
    "getFileContents c (attachmentDataPath docId) r1 = (Inr buf, r2)"
  let ?w2 = "\<lparr>remote = r2,
      trace = trace w @ [Exists (attachmentDataPath docId), GetFileContents (attachmentDataPath docId)]\<rparr>"
  from sidecar_read_never_rejects [of "attachmentMetaPath docId" c js ?w2]
  obtain meta w' where
    "try_catch
       (await (call (Exists (attachmentMetaPath docId)) (exists c (attachmentMetaPath docId)))
          (\<lambda>metaExists.
             if metaExists then
               await (call (GetFileContents (attachmentMetaPath docId))
                        (getFileContents c (attachmentMetaPath docId)))
                 (\<lambda>metaContent.
                    case JSON_parse js metaContent of
                      Inl e \<Rightarrow> reject e
                    | Inr m \<Rightarrow> resolve (Some m))
             else resolve None))
       (\<lambda>error. resolve None) ?w2 = (Inr meta, w')"
    by blast
  with valid payload
  have "fst (downloadAttachment js (Some c) docId w) = Inr (Some \<lparr>data = buf, metadata = meta\<rparr>)"
    by (simp add: downloadAttachment_valid await_def call_def resolve_def)
  then show "\<exists>meta. fst (downloadAttachment js (Some c) docId w)
      = Inr (Some \<lparr>data = buf, metadata = meta\<rparr>)"
    by blast
qed (auto simp add: downloadAttachment_valid lone_surrogate_rejected promise_defs
    split: prod.splits sum.splits)

theorem downloadAttachment_survives_metadata_failure_witness:
  "fst (downloadAttachment flat_platform (Some demo_client) ''notes/2024 plan'' garbled_attached_world)
     = Inr (Some \<lparr>data = demo_blob, metadata = None\<rparr>)
   \<and> fst (downloadAttachment flat_platform (Some demo_client) ''notes/2024 plan'' bare_attached_world)
     = Inr (Some \<lparr>data = demo_blob, metadata = None\<rparr>)
   \<and> fst (downloadAttachment flat_platform (Some demo_client) ''notes/2024 plan'' attached_world)
     = Inr (Some \<lparr>data = demo_blob, metadata = Some demo_meta\<rparr>)
   \<and> fst (downloadAttachment flat_platform (Some demo_client) ''notes/2024 plan'' demo_world)
     = Inr None"
proof -
  let ?id = "''notes/2024 plan''"
  let ?dp = "attachmentDataPath ?id" and ?mp = "attachmentMetaPath ?id"
  have valid: "utf8_valid ?id"
    by code_simp
  have garbled:
    "exists demo_client ?dp (remote garbled_attached_world) = (Inr True, remote garbled_attached_world)"
    "getFileContents demo_client ?dp (remote garbled_attached_world)
       = (Inr demo_blob, remote garbled_attached_world)"
    "exists demo_client ?mp (remote garbled_attached_world) = (Inr True, remote garbled_attached_world)"
    "fst (getFileContents demo_client ?mp (remote garbled_attached_world)) = Inr ''{oops''"
    "JSON_parse flat_platform ''{oops'' = Inl SyntaxError"
    by code_simp+
  have bare:
    "exists demo_client ?dp (remote bare_attached_world) = (Inr True, remote bare_attached_world)"
    "getFileContents demo_client ?dp (remote bare_attached_world)
       = (Inr demo_blob, remote bare_attached_world)"
    "fst (exists demo_client ?mp (remote bare_attached_world)) = Inr False"
    by code_simp+
  have full:
    "exists demo_client ?dp (remote attached_world) = (Inr True, remote attached_world)"
    "getFileContents demo_client ?dp (remote attached_world) = (Inr demo_blob, remote attached_world)"
    "exists demo_client ?mp (remote attached_world) = (Inr True, remote attached_world)"
    "fst (getFileContents demo_client ?mp (remote attached_world))
       = Inr (projr (flat_stringify demo_meta))"
    "JSON_parse flat_platform (projr (flat_stringify demo_meta)) = Inr demo_meta"
    by code_simp+
  have none: "exists demo_client ?dp (remote demo_world) = (Inr False, demo_server)"
    by code_simp
  from downloadAttachment_survives_metadata_failure
    [where c = demo_client and docId = ?id and w = garbled_attached_world and js = flat_platform] valid garbled
  have one: "fst (downloadAttachment flat_platform (Some demo_client) ?id garbled_attached_world)
      = Inr (Some \<lparr>data = demo_blob, metadata = None\<rparr>)"
    by blast
  from downloadAttachment_survives_metadata_failure
    [where c = demo_client and docId = ?id and w = bare_attached_world and js = flat_platform] valid bare
  have two: "fst (downloadAttachment flat_platform (Some demo_client) ?id bare_attached_world)
      = Inr (Some \<lparr>data = demo_blob, metadata = None\<rparr>)"
    by blast
  from downloadAttachment_survives_metadata_failure
    [where c = demo_client and docId = ?id and w = attached_world and js = flat_platform] valid full
  have three: "fst (downloadAttachment flat_platform (Some demo_client) ?id attached_world)
      = Inr (Some \<lparr>data = demo_blob, metadata = Some demo_meta\<rparr>)"
    by blast
  from downloadAttachment_survives_metadata_failure
    [where c = demo_client and docId = ?id and w = demo_world and js = flat_platform] valid none
  have four: "fst (downloadAttachment flat_platform (Some demo_client) ?id demo_world) = Inr None"
    by simp
  from one two three four show ?thesis by simp
qed

text \<open>
  C10, as the claim states it, fails for an id that is not a well-formed string. The
  demo server holds no file, so the payload of the id with a lone surrogate is absent;
  \<open>downloadAttachment\<close> does not return null: \<^verbatim>\<open>encodeURIComponent\<close> throws before the
  existence check and outside the \<^verbatim>\<open>try\<close> block, and the method rejects.
\<close>

theorem downloadAttachment_rejects_lone_surrogate:
  "\<not> utf8_valid cut_id
   \<and> files (remote demo_world) = []
   \<and> downloadAttachment flat_platform (Some demo_client) cut_id demo_world
       = (Inl URIError, demo_world)"
  by code_simp

text \<open>
  C9, as the code has it. Let the id be a well-formed string. \<open>deleteAttachment\<close> asks
  the transport whether the payload exists before it deletes: when the answer is no it
  resolves without a \<^verbatim>\<open>DELETE\<close>, its only call being the existence check, and when the
  answer is yes it goes on to the \<^verbatim>\<open>DELETE\<close> and returns what that returns. \<open>deleteDoc\<close>
  makes no such check: its one and only call is the \<^verbatim>\<open>DELETE\<close>, whose outcome it returns
  as it is. For an id with a lone surrogate both methods reject with \<^verbatim>\<open>URIError\<close> and
  make no call.
\<close>

theorem deleteAttachment_checks_deleteDoc_does_not:
  "(utf8_valid docId \<longrightarrow>
     (\<forall>r1. exists c (attachmentDataPath docId) (remote w) = (Inr False, r1) \<longrightarrow>
        deleteAttachment (Some c) docId w
          = (Inr (), \<lparr>remote = r1, trace = trace w @ [Exists (attachmentDataPath docId)]\<rparr>))
     \<and> (\<forall>r1. exists c (attachmentDataPath docId) (remote w) = (Inr True, r1) \<longrightarrow>
        deleteAttachment (Some c) docId w
          = (fst (deleteFile c (attachmentDataPath docId) r1),
             \<lparr>remote = snd (deleteFile c (attachmentDataPath docId) r1),
              trace = trace w @ [Exists (attachmentDataPath docId),
                                 DeleteFile (attachmentDataPath docId)]\<rparr>))
     \<and> deleteDoc (Some c) docId w
         = (fst (deleteFile c (docPath docId) (remote w)),
            \<lparr>remote = snd (deleteFile c (docPath docId) (remote w)),
             trace = trace w @ [DeleteFile (docPath docId)]\<rparr>))
   \<and> (\<not> utf8_valid docId \<longrightarrow>
        deleteAttachment (Some c) docId w = (Inl URIError, w)
        \<and> deleteDoc (Some c) docId w = (Inl URIError, w))"
proof (intro conjI allI impI)
  fix r1
  assume "utf8_valid docId" "exists c (attachmentDataPath docId) (remote w) = (Inr False, r1)"
  then show "deleteAttachment (Some c) docId w
      = (Inr (), \<lparr>remote = r1, trace = trace w @ [Exists (attachmentDataPath docId)]\<rparr>)"
    by (simp add: deleteAttachment_valid promise_defs)
next
  fix r1
  assume "utf8_valid docId" "exists c (attachmentDataPath docId) (remote w) = (Inr True, r1)"
  then show "deleteAttachment (Some c) docId w
      = (fst (deleteFile c (attachmentDataPath docId) r1),
         \<lparr>remote = snd (deleteFile c (attachmentDataPath docId) r1),
          trace = trace w @ [Exists (attachmentDataPath docId),
                             DeleteFile (attachmentDataPath docId)]\<rparr>)"
    by (simp add: deleteAttachment_valid promise_defs split: prod.splits)
next
  assume "utf8_valid docId"
  then show "deleteDoc (Some c) docId w
      = (fst (deleteFile c (docPath docId) (remote w)),
         \<lparr>remote = snd (deleteFile c (docPath docId) (remote w)),
          trace = trace w @ [DeleteFile (docPath docId)]\<rparr>)"
    by (simp add: deleteDoc_valid promise_defs split: prod.splits)
next
  assume "\<not> utf8_valid docId"
  then show "deleteAttachment (Some c) docId w = (Inl URIError, w)"
    by (rule lone_surrogate_rejected)
next
  assume "\<not> utf8_valid docId"
  then show "deleteDoc (Some c) docId w = (Inl URIError, w)"
    by (rule lone_surrogate_rejected)
qed

text \<open>
  On the demo server: deleting an attachment that is not there resolves; deleting one
  that is there removes it, and deleting it once more resolves again.
\<close>

theorem deleteAttachment_checks_deleteDoc_does_not_witness:
  "fst (deleteAttachment (Some demo_client) ''notes/2024 plan'' demo_world) = Inr ()
   \<and> trace (snd (deleteAttachment (Some demo_client) ''notes/2024 plan'' demo_world))
       = [Exists ''/ztools-sync/attachments/notes%2F2024%20plan.bin'']
   \<and> fst (deleteAttachment (Some demo_client) ''notes/2024 plan'' bare_attached_world) = Inr ()
   \<and> fst (deleteAttachment (Some demo_client) ''notes/2024 plan''
            (snd (deleteAttachment (Some demo_client) ''notes/2024 plan'' bare_attached_world)))
       = Inr ()"
proof -
  let ?id = "''notes/2024 plan''"
  let ?gone = "snd (deleteAttachment (Some demo_client) ?id bare_attached_world)"
  have valid: "utf8_valid ?id"
    by code_simp
  have absent: "exists demo_client (attachmentDataPath ?id) (remote demo_world)
      = (Inr False, demo_server)"
    and path: "attachmentDataPath ?id = ''/ztools-sync/attachments/notes%2F2024%20plan.bin''"
    and t: "trace demo_world = []"
    by code_simp+
  have present: "exists demo_client (attachmentDataPath ?id) (remote bare_attached_world)
      = (Inr True, remote bare_attached_world)"
    and deleted: "fst (deleteFile demo_client (attachmentDataPath ?id) (remote bare_attached_world))
      = Inr ()"
    by code_simp+
  have again: "exists demo_client (attachmentDataPath ?id) (remote ?gone) = (Inr False, remote ?gone)"
    by code_simp
  from deleteAttachment_checks_deleteDoc_does_not
    [where c = demo_client and docId = ?id and w = demo_world] valid absent path t
  have one: "deleteAttachment (Some demo_client) ?id demo_world
      = (Inr (), \<lparr>remote = demo_server,
                   trace = [Exists ''/ztools-sync/attachments/notes%2F2024%20plan.bin'']\<rparr>)"
    by simp
  from deleteAttachment_checks_deleteDoc_does_not
    [where c = demo_client and docId = ?id and w = bare_attached_world] valid present deleted
  have two: "fst (deleteAttachment (Some demo_client) ?id bare_attached_world) = Inr ()"
    by simp
  from deleteAttachment_checks_deleteDoc_does_not
    [where c = demo_client and docId = ?id and w = ?gone] valid again
  have three: "fst (deleteAttachment (Some demo_client) ?id ?gone) = Inr ()"
    by simp
  from one two three show ?thesis by simp
qed

text \<open>
  C9, as the claim states it, fails for an id that is not a well-formed string:
  \<open>deleteAttachment\<close> of the id with a lone surrogate, whose payload is absent, makes
  no existence check and does not succeed. \<^verbatim>\<open>encodeURIComponent\<close> throws first, and the
  method rejects with the trace of calls as it was.
\<close>

theorem deleteAttachment_rejects_lone_surrogate:
  "\<not> utf8_valid cut_id
   \<and> files (remote demo_world) = []
   \<and> fst (deleteAttachment (Some demo_client) cut_id demo_world) = Inl URIError
   \<and> trace (snd (deleteAttachment (Some demo_client) cut_id demo_world)) = trace demo_world
   \<and> trace demo_world = []"
  by code_simp

text \<open>
  C2, on the demo server. The document \<^verbatim>\<open>ghost\<close> has no file on the server; \<open>deleteDoc\<close>
  sends the \<^verbatim>\<open>DELETE\<close> all the same, the server answers \<^verbatim>\<open>404\<close>, and the method rejects
  with that error. (The listing that follows does not name the document.)
\<close>

theorem deleteDoc_of_absent_document_rejects:
  "fst (exists demo_client (docPath ''ghost'') (remote demo_world)) = Inr False
   \<and> deleteDoc (Some demo_client) ''ghost'' demo_world
       = (Inl (HttpError 404),
          \<lparr>remote = demo_server, trace = [DeleteFile ''/ztools-sync/ghost.json'']\<rparr>)
   \<and> fst (listRemoteDocsWithMeta (Some demo_client)
            (snd (deleteDoc (Some demo_client) ''ghost'' demo_world))) = Inr []"
  by code_simp

lemma parent_of_sync_directories:
  "parent_path ''/ztools-sync'' = ''/''"
  "parent_path ''/ztools-sync/attachments'' = ''/ztools-sync''"
  by code_simp+

text \<open>
  On the in-memory server, an \<open>init\<close> that follows a successful \<open>init\<close> succeeds, lists
  the root, asks for the two directories and creates nothing: the server is as the
  first call left it.
\<close>

lemma dav_init_twice:
  assumes "init dav_createClient config client \<lparr>remote = s, trace = t\<rparr> = (Inr (), client1, w1)"
  shows "init dav_createClient config client1 w1
      = (Inr (), client1,
         \<lparr>remote = remote w1,
          trace = trace w1 @ [GetDirectoryContents ''/'' False, Exists ''/ztools-sync'',
                              Exists ''/ztools-sync/attachments'']\<rparr>)"
  using assms
  by (auto simp add: init_def testConnection_def ensureRemoteDirectory_def promise_defs Let_def
      dav_createClient_def dav_exists_def dav_createDirectory_def dav_getDirectoryContents_def
      refused_def is_collection_def is_file_def parent_of_sync_directories
      split: if_splits prod.splits sum.splits option.splits)

text \<open>
  C7. For every configuration, \<open>init\<close> assigns the handle that \<^verbatim>\<open>createClient\<close> makes of
  the configuration's URL and credentials, and lists the root to test the connection.
  If that call fails, \<open>init\<close> rejects with the connection error made from its cause
  and makes no further call. Otherwise it asks whether the sync directory exists and
  creates it only when the answer is no, and then does the same for the attachments
  directory: the four cases below give the calls it makes. On the in-memory server a
  second \<open>init\<close> after a successful one creates nothing and leaves the server unchanged.
\<close>

theorem init_connects_then_ensures_directories:
  "fst (snd (init createClient config client w)) = Some (handle_for createClient config)
   \<and> (\<forall>e r1. getDirectoryContents (handle_for createClient config) ''/'' False (remote w) = (Inl e, r1)
        \<longrightarrow> init createClient config client w
            = (Inl (ConnectionFailed e), Some (handle_for createClient config),
               \<lparr>remote = r1, trace = trace w @ [GetDirectoryContents ''/'' False]\<rparr>))
   \<and> (\<forall>resp r1 r2 r3.
        getDirectoryContents (handle_for createClient config) ''/'' False (remote w) = (Inr resp, r1)
        \<and> exists (handle_for createClient config) ''/ztools-sync'' r1 = (Inr True, r2)
        \<and> exists (handle_for createClient config) ''/ztools-sync/attachments'' r2 = (Inr True, r3)
        \<longrightarrow> init createClient config client w
            = (Inr (), Some (handle_for createClient config),
               \<lparr>remote = r3,
                trace = trace w @ [GetDirectoryContents ''/'' False, Exists ''/ztools-sync'',
                                   Exists ''/ztools-sync/attachments'']\<rparr>))
   \<and> (\<forall>resp r1 r2 r3 r4.
        getDirectoryContents (handle_for createClient config) ''/'' False (remote w) = (Inr resp, r1)
        \<and> exists (handle_for createClient config) ''/ztools-sync'' r1 = (Inr True, r2)
        \<and> exists (handle_for createClient config) ''/ztools-sync/attachments'' r2 = (Inr False, r3)
        \<and> createDirectory (handle_for createClient config) ''/ztools-sync/attachments'' r3 = (Inr (), r4)
        \<longrightarrow> init createClient config client w
            = (Inr (), Some (handle_for createClient config),
               \<lparr>remote = r4,
                trace = trace w @ [GetDirectoryContents ''/'' False, Exists ''/ztools-sync'',
                                   Exists ''/ztools-sync/attachments'',
                                   CreateDirectory ''/ztools-sync/attachments'']\<rparr>))
   \<and> (\<forall>resp r1 r2 r3 r4.
        getDirectoryContents (handle_for createClient config) ''/'' False (remote w) = (Inr resp, r1)
        \<and> exists (handle_for createClient config) ''/ztools-sync'' r1 = (Inr False, r2)
        \<and> createDirectory (handle_for createClient config) ''/ztools-sync'' r2 = (Inr (), r3)
        \<and> exists (handle_for createClient config) ''/ztools-sync/attachments'' r3 = (Inr True, r4)
        \<longrightarrow> init createClient config client w
            = (Inr (), Some (handle_for createClient config),
               \<lparr>remote = r4,
                trace = trace w @ [GetDirectoryContents ''/'' False, Exists ''/ztools-sync'',
                                   CreateDirectory ''/ztools-sync'',
                                   Exists ''/ztools-sync/attachments'']\<rparr>))
   \<and> (\<forall>resp r1 r2 r3 r4 r5.
        getDirectoryContents (handle_for createClient config) ''/'' False (remote w) = (Inr resp, r1)
        \<and> exists (handle_for createClient config) ''/ztools-sync'' r1 = (Inr False, r2)
        \<and> createDirectory (handle_for createClient config) ''/ztools-sync'' r2 = (Inr (), r3)
        \<and> exists (handle_for createClient config) ''/ztools-sync/attachments'' r3 = (Inr False, r4)
        \<and> createDirectory (handle_for createClient config) ''/ztools-sync/attachments'' r4 = (Inr (), r5)
        \<longrightarrow> init createClient config client w
            = (Inr (), Some (handle_for createClient config),
               \<lparr>remote = r5,
                trace = trace w @ [GetDirectoryContents ''/'' False, Exists ''/ztools-sync'',
                                   CreateDirectory ''/ztools-sync'',
                                   Exists ''/ztools-sync/attachments'',
                                   CreateDirectory ''/ztools-sync/attachments'']\<rparr>))
   \<and> (\<forall>dav_client s t client1 w1.
        init dav_createClient config dav_client \<lparr>remote = s, trace = t\<rparr> = (Inr (), client1, w1)
        \<longrightarrow> init dav_createClient config client1 w1
            = (Inr (), client1,
               \<lparr>remote = remote w1,
                trace = trace w1 @ [GetDirectoryContents ''/'' False, Exists ''/ztools-sync'',
                                    Exists ''/ztools-sync/attachments'']\<rparr>))"
proof (intro conjI allI impI; (elim conjE)?)
  show "fst (snd (init createClient config client w)) = Some (handle_for createClient config)"
    by (simp add: init_def Let_def split: prod.splits)
next
  fix dav_client s t client1 w1
  assume "init dav_createClient config dav_client \<lparr>remote = s, trace = t\<rparr> = (Inr (), client1, w1)"
  then show "init dav_createClient config client1 w1
      = (Inr (), client1,
         \<lparr>remote = remote w1,
          trace = trace w1 @ [GetDirectoryContents ''/'' False, Exists ''/ztools-sync'',
                              Exists ''/ztools-sync/attachments'']\<rparr>)"
    by (rule dav_init_twice)
qed (simp_all add: init_def testConnection_def ensureRemoteDirectory_def promise_defs Let_def)

theorem init_connects_then_ensures_directories_witness:
  "init dav_createClient demo_config None offline_world
     = (Inl (ConnectionFailed NetworkError), Some (handle_for dav_createClient demo_config),
        \<lparr>remote = remote offline_world, trace = [GetDirectoryContents ''/'' False]\<rparr>)
   \<and> init dav_createClient demo_config None fresh_world
     = (Inr (), Some (handle_for dav_createClient demo_config),
        \<lparr>remote = demo_server,
         trace = [GetDirectoryContents ''/'' False, Exists ''/ztools-sync'',
                  CreateDirectory ''/ztools-sync'', Exists ''/ztools-sync/attachments'',
                  CreateDirectory ''/ztools-sync/attachments'']\<rparr>)
   \<and> init dav_createClient demo_config (Some (handle_for dav_createClient demo_config))
         \<lparr>remote = demo_server,
          trace = [GetDirectoryContents ''/'' False, Exists ''/ztools-sync'',
                   CreateDirectory ''/ztools-sync'', Exists ''/ztools-sync/attachments'',
                   CreateDirectory ''/ztools-sync/attachments'']\<rparr>
     = (Inr (), Some (handle_for dav_createClient demo_config),
        \<lparr>remote = demo_server,
         trace = [GetDirectoryContents ''/'' False, Exists ''/ztools-sync'',
                  CreateDirectory ''/ztools-sync'', Exists ''/ztools-sync/attachments'',
                  CreateDirectory ''/ztools-sync/attachments'',
                  GetDirectoryContents ''/'' False, Exists ''/ztools-sync'',
                  Exists ''/ztools-sync/attachments'']\<rparr>)"
proof -
  let ?h = "handle_for dav_createClient demo_config"
  let ?made = "\<lparr>remote = demo_server,
      trace = [GetDirectoryContents ''/'' False, Exists ''/ztools-sync'',
               CreateDirectory ''/ztools-sync'', Exists ''/ztools-sync/attachments'',
               CreateDirectory ''/ztools-sync/attachments'']\<rparr>"
  have unreachable:
    "getDirectoryContents ?h ''/'' False (remote offline_world)
       = (Inl NetworkError, remote offline_world)"
    and t_off: "trace offline_world = []"
    by code_simp+
  have fresh:
    "getDirectoryContents ?h ''/'' False (remote fresh_world) = (Inr (Plain []), remote fresh_world)"
    "exists ?h ''/ztools-sync'' (remote fresh_world) = (Inr False, remote fresh_world)"
    "createDirectory ?h ''/ztools-sync'' (remote fresh_world) = (Inr (), half_made_server)"
    "exists ?h ''/ztools-sync/attachments'' half_made_server = (Inr False, half_made_server)"
    "createDirectory ?h ''/ztools-sync/attachments'' half_made_server = (Inr (), demo_server)"
    and t_fresh: "trace fresh_world = []"
    and fresh_eq: "fresh_world = \<lparr>remote = remote fresh_world, trace = []\<rparr>"
    by code_simp+
  note main = init_connects_then_ensures_directories
  from main [of dav_createClient demo_config None offline_world] unreachable t_off
  have one: "init dav_createClient demo_config None offline_world
      = (Inl (ConnectionFailed NetworkError), Some ?h,
         \<lparr>remote = remote offline_world, trace = [GetDirectoryContents ''/'' False]\<rparr>)"
    by simp
  from main [of dav_createClient demo_config None fresh_world] fresh(1-5) t_fresh
  have two: "init dav_createClient demo_config None fresh_world = (Inr (), Some ?h, ?made)"
    by simp
  from two fresh_eq
  have "init dav_createClient demo_config None \<lparr>remote = remote fresh_world, trace = []\<rparr>
      = (Inr (), Some ?h, ?made)"
    by simp
  with main [of dav_createClient demo_config None fresh_world]
  have three: "init dav_createClient demo_config (Some ?h) ?made
      = (Inr (), Some ?h,
         \<lparr>remote = remote ?made,
          trace = trace ?made @ [GetDirectoryContents ''/'' False, Exists ''/ztools-sync'',
                                 Exists ''/ztools-sync/attachments'']\<rparr>)"
    by blast
  from one two three show ?thesis by simp
qed

subsection \<open>Remote paths\<close>

lemma of_char_div_16: "(of_char c :: nat) div 16 < 16"
proof -
  have "(of_char c :: nat) < 16 * 16" by simp
  then show ?thesis by (rule less_mult_imp_div_less)
qed

lemma hex_upper_digit: "n < 16 \<Longrightarrow> hex_upper n \<in> set ''0123456789ABCDEF''"
  unfolding hex_upper_def by (rule nth_mem) simp

lemma percent_byte_chars: "set (percent_byte c) \<subseteq> insert CHR ''%'' (set ''0123456789ABCDEF'')"
  using hex_upper_digit [OF of_char_div_16 [of c]] hex_upper_digit [of "of_char c mod 16"]
  by (simp add: percent_byte_def Let_def)

lemma percent_encode_Nil: "percent_encode [] = []"
  by (simp add: percent_encode_def)

lemma percent_encode_Cons:
  "percent_encode (c # s)
     = (if uri_unreserved c then [c] else percent_byte c) @ percent_encode s"
  by (simp add: percent_encode_def)

lemma percent_encode_chars:
  "set (percent_encode s)
     \<subseteq> {c. uri_unreserved c} \<union> insert CHR ''%'' (set ''0123456789ABCDEF'')"
proof (induction s)
  case Nil
  show ?case by (simp add: percent_encode_Nil)
next
  case (Cons c s)
  show ?case
  proof (cases "uri_unreserved c")
    case True
    with Cons show ?thesis by (simp add: percent_encode_Cons)
  next
    case False
    with Cons percent_byte_chars [of c] show ?thesis
      unfolding percent_encode_Cons by (simp only: if_False set_append) blast
  qed
qed

text \<open>An encoded id holds no path separator, so every document lies in the sync directory.\<close>

lemma percent_encode_no_slash: "CHR ''/'' \<notin> set (percent_encode s)"
proof -
  have "\<not> uri_unreserved CHR ''/''" by code_simp
  then show ?thesis
    using percent_encode_chars [of s] by auto
qed

lemma parent_path_of_file:
  assumes "CHR ''/'' \<notin> set name"
  shows "parent_path (''/ztools-sync/'' @ name) = ''/ztools-sync''"
proof -
  have "dropWhile (\<lambda>c. c \<noteq> CHR ''/'') (rev name @ rev ''/ztools-sync/'') = rev ''/ztools-sync/''"
    using assms by (simp add: dropWhile_append)
  then show ?thesis
    by (simp add: parent_path_def)
qed

lemma parent_path_docPath: "parent_path (docPath docId) = ''/ztools-sync''"
  using parent_path_of_file [of "percent_encode docId @ ''.json''"]
    percent_encode_no_slash [of docId]
  by (simp add: docPath_def)

text \<open>
  The in-memory server gives back what was put: after a \<^verbatim>\<open>PUT\<close> of a document's file the
  path exists and a \<^verbatim>\<open>GET\<close> returns the content.
\<close>

lemma dav_put_then_get:
  assumes ok: "refused cred s = None"
    and root: "is_collection s ''/ztools-sync''"
    and free: "\<not> is_collection s (docPath docId)"
  shows "\<exists>s'. dav_putFileContents cred (docPath docId) content s = (Inr (), s')
      \<and> dav_exists cred (docPath docId) s' = (Inr True, s')
      \<and> dav_getFileContents cred (docPath docId) s' = (Inr content, s')"
proof -
  let ?p = "docPath docId"
  let ?s' = "s\<lparr>files := filter (\<lambda>(f, _). f \<noteq> ?p) (files s) @ [(?p, content, clock s + 1)],
               clock := clock s + 1\<rparr>"
  have put: "dav_putFileContents cred ?p content s = (Inr (), ?s')"
    using ok root free by (simp add: dav_putFileContents_def parent_path_docPath)
  have ok': "refused cred ?s' = None"
    using ok by (simp add: refused_def split: if_splits)
  have there: "is_file ?s' ?p"
    by (simp add: is_file_def)
  have "map_of (filter (\<lambda>(f, _). f \<noteq> ?p) (files s)) ?p = None"
    by (auto simp add: map_of_eq_None_iff)
  then have look: "map_of (files ?s') ?p = Some (content, clock s + 1)"
    by (simp add: map_add_def)
  show ?thesis
    using put ok' there look
    by (simp add: dav_exists_def dav_getFileContents_def)
qed

lemma upload_then_download_on_transport:
  assumes "prop_id js doc = Inr docId" and "utf8_valid docId"
    and "JSON_stringify js doc = Inr content" and "JSON_parse js content = Inr parsed"
    and "putFileContents c (docPath docId) content (remote w) = (Inr (), r1)"
    and "exists c (docPath docId) r1 = (Inr True, r2)"
    and "getFileContents c (docPath docId) r2 = (Inr content, r3)"
  shows "fst (uploadDoc js (Some c) doc w) = Inr ()"
    and "fst (downloadDoc js (Some c) docId (snd (uploadDoc js (Some c) doc w))) = Inr parsed"
  using assms
  by (simp_all add: uploadDoc_valid downloadDoc_valid promise_defs)

text \<open>
  C3, as the code has it. Let the document's id be a well-formed string. \<open>uploadDoc\<close>
  and \<open>downloadDoc\<close> derive the same path from the id. So on any transport that accepts
  the \<^verbatim>\<open>PUT\<close> of that path and then reports the path and returns its content,
  \<open>uploadDoc doc\<close> resolves and \<open>downloadDoc\<close> of the document's id then resolves to what
  \<^verbatim>\<open>JSON.parse\<close> reads from the text \<^verbatim>\<open>JSON.stringify(doc, null, 2)\<close>: the document itself
  whenever JSON serialization followed by parsing is the identity on it (\<open>parsed = doc\<close>
  below), as it is on JSON values. The in-memory server is such a transport for every
  document, whenever it answers the client's requests, holds the sync directory (as
  after \<open>init\<close>) and no directory has the document's path. When the id has a lone
  surrogate, \<open>uploadDoc\<close> and \<open>downloadDoc\<close> reject with \<^verbatim>\<open>URIError\<close> and make no call.
\<close>

theorem upload_then_download_returns_document:
  "(prop_id js doc = Inr docId \<and> utf8_valid docId \<longrightarrow>
      (\<forall>content parsed r1 r2 r3.
         JSON_stringify js doc = Inr content \<and> JSON_parse js content = Inr parsed
         \<and> putFileContents c (docPath docId) content (remote w) = (Inr (), r1)
         \<and> exists c (docPath docId) r1 = (Inr True, r2)
         \<and> getFileContents c (docPath docId) r2 = (Inr content, r3)
         \<longrightarrow> fst (uploadDoc js (Some c) doc w) = Inr ()
             \<and> fst (downloadDoc js (Some c) docId (snd (uploadDoc js (Some c) doc w)))
                 = Inr parsed)
      \<and> (\<forall>content parsed url user pass s t.
         JSON_stringify js doc = Inr content \<and> JSON_parse js content = Inr parsed
         \<and> refused (user, pass) s = None
         \<and> is_collection s ''/ztools-sync''
         \<and> \<not> is_collection s (docPath docId)
         \<longrightarrow> fst (uploadDoc js (Some (dav_createClient url user pass)) doc
                    \<lparr>remote = s, trace = t\<rparr>)
               = Inr ()
             \<and> fst (downloadDoc js (Some (dav_createClient url user pass)) docId
                      (snd (uploadDoc js (Some (dav_createClient url user pass)) doc
                              \<lparr>remote = s, trace = t\<rparr>)))
                 = Inr parsed))
   \<and> (prop_id js doc = Inr docId \<and> \<not> utf8_valid docId \<longrightarrow>
        uploadDoc js (Some c) doc w = (Inl URIError, w)
        \<and> downloadDoc js (Some c) docId w = (Inl URIError, w))"
proof (intro conjI allI impI; elim conjE)
  fix content parsed r1 r2 r3
  assume "prop_id js doc = Inr docId" "utf8_valid docId"
    "JSON_stringify js doc = Inr content" "JSON_parse js content = Inr parsed"
    "putFileContents c (docPath docId) content (remote w) = (Inr (), r1)"
    "exists c (docPath docId) r1 = (Inr True, r2)"
    "getFileContents c (docPath docId) r2 = (Inr content, r3)"
  then show "fst (uploadDoc js (Some c) doc w) = Inr ()"
    and "fst (downloadDoc js (Some c) docId (snd (uploadDoc js (Some c) doc w))) = Inr parsed"
    by (rule upload_then_download_on_transport)+
next
  fix content parsed url user pass t and s :: dav_server
  let ?c = "dav_createClient url user pass"
  let ?w = "\<lparr>remote = s, trace = t\<rparr>"
  assume id: "prop_id js doc = Inr docId" "utf8_valid docId"
    and codec: "JSON_stringify js doc = Inr content" "JSON_parse js content = Inr parsed"
    and server: "refused (user, pass) s = None" "is_collection s ''/ztools-sync''"
      "\<not> is_collection s (docPath docId)"
  from dav_put_then_get [OF server, of content]
  obtain s' where
    "putFileContents ?c (docPath docId) content (remote ?w) = (Inr (), s')"
    "exists ?c (docPath docId) s' = (Inr True, s')"
    "getFileContents ?c (docPath docId) s' = (Inr content, s')"
    by (auto simp add: dav_createClient_def)
  with id codec show "fst (uploadDoc js (Some ?c) doc ?w) = Inr ()"
    and "fst (downloadDoc js (Some ?c) docId (snd (uploadDoc js (Some ?c) doc ?w))) = Inr parsed"
    by (rule upload_then_download_on_transport)+
next
  assume "prop_id js doc = Inr docId" "\<not> utf8_valid docId"
  then show "uploadDoc js (Some c) doc w = (Inl URIError, w)"
    by (rule lone_surrogate_rejected(6) [rotated])
next
  assume "\<not> utf8_valid docId"
  then show "downloadDoc js (Some c) docId w = (Inl URIError, w)"
    by (rule lone_surrogate_rejected)
qed

theorem upload_then_download_returns_document_witness:
  "fst (uploadDoc flat_platform (Some demo_client) demo_doc demo_world) = Inr ()
   \<and> fst (downloadDoc flat_platform (Some demo_client) ''notes/2024 plan''
            (snd (uploadDoc flat_platform (Some demo_client) demo_doc demo_world)))
       = Inr demo_doc"
proof -
  let ?text = "projr (flat_stringify demo_doc)"
  have id: "prop_id flat_platform demo_doc = Inr ''notes/2024 plan''"
    "utf8_valid ''notes/2024 plan''"
    by code_simp+
  have codec: "JSON_stringify flat_platform demo_doc = Inr ?text"
    "JSON_parse flat_platform ?text = Inr demo_doc"
    by code_simp+
  have server: "refused (''ann'', ''secret'') demo_server = None"
    "is_collection demo_server ''/ztools-sync''"
    "\<not> is_collection demo_server (docPath ''notes/2024 plan'')"
    by code_simp+
  have client: "demo_client = dav_createClient ''https://dav.example/remote.php'' ''ann'' ''secret''"
    by (simp add: demo_client_def demo_config_def)
  note on_server = upload_then_download_returns_document
    [THEN conjunct1, rule_format, THEN conjunct2, rule_format,
      where js = flat_platform and doc = demo_doc and docId = "''notes/2024 plan''"
        and content = ?text and parsed = demo_doc
        and user = "''ann''" and pass = "''secret''" and s = demo_server
        and url = "''https://dav.example/remote.php''" and t = "[]"]
  from on_server id codec server
  have "fst (uploadDoc flat_platform
               (Some (dav_createClient ''https://dav.example/remote.php'' ''ann'' ''secret''))
               demo_doc \<lparr>remote = demo_server, trace = []\<rparr>) = Inr ()
      \<and> fst (downloadDoc flat_platform
               (Some (dav_createClient ''https://dav.example/remote.php'' ''ann'' ''secret''))
               ''notes/2024 plan''
               (snd (uploadDoc flat_platform
                       (Some (dav_createClient ''https://dav.example/remote.php'' ''ann'' ''secret''))
                       demo_doc \<lparr>remote = demo_server, trace = []\<rparr>)))
          = Inr demo_doc"
    by simp
  then show ?thesis
    by (simp add: client demo_world_def)
qed

text \<open>
  C3, as the claim states it, fails for a document whose id is a string with a lone
  surrogate. The codec reads the document back from its text, the client is assigned
  and the server answers; yet \<open>uploadDoc\<close> rejects, because \<^verbatim>\<open>encodeURIComponent\<close> throws on
  the id, and nothing is written; \<open>downloadDoc\<close> of the id rejects in the same way.
\<close>

theorem upload_rejects_lone_surrogate:
  "prop_id flat_platform cut_doc = Inr cut_id
   \<and> \<not> utf8_valid cut_id
   \<and> JSON_parse flat_platform (projr (JSON_stringify flat_platform cut_doc)) = Inr cut_doc
   \<and> fst (testConnection (Some demo_client) demo_world) = Inr True
   \<and> uploadDoc flat_platform (Some demo_client) cut_doc demo_world = (Inl URIError, demo_world)
   \<and> downloadDoc flat_platform (Some demo_client) cut_id demo_world = (Inl URIError, demo_world)"
  by code_simp

subsection \<open>Listing\<close>

text \<open>
  C4, on the demo server. The document with id \<^verbatim>\<open>a.json.b\<close> is uploaded to the file
  \<^verbatim>\<open>a.json.b.json\<close>. The listing takes the first \<^verbatim>\<open>.json\<close> out of the file's name, not the
  one at its end, and reports the id \<^verbatim>\<open>a.b.json\<close>: downloading the listed id finds nothing,
  while the document is still there under its own id. Once the document with id
  \<^verbatim>\<open>a.b.json\<close> is uploaded as well, the listing reports that id twice.
\<close>

theorem listing_loses_id_with_inner_json:
  "prop_id flat_platform dotted_doc = Inr ''a.json.b''
   \<and> replace ''a.json.b.json'' ''.json'' [] = ''a.b.json''
   \<and> fst (uploadDoc flat_platform (Some demo_client) dotted_doc demo_world) = Inr ()
   \<and> map fst (files (remote dotted_world)) = [''/ztools-sync/a.json.b.json'']
   \<and> fst (listRemoteDocsWithMeta (Some demo_client) dotted_world)
       = Inr [\<lparr>meta_docId = ''a.b.json'', lastModified = 1\<rparr>]
   \<and> fst (downloadDoc flat_platform (Some demo_client) ''a.b.json'' dotted_world) = Inr Null
   \<and> fst (downloadDoc flat_platform (Some demo_client) ''a.json.b'' dotted_world)
       = Inr dotted_doc
   \<and> map meta_docId (projr (fst (listRemoteDocsWithMeta (Some demo_client) twin_world)))
       = [''a.b.json'', ''a.b.json'']"
  by code_simp

lemma hex_upper_inj: "m < 16 \<Longrightarrow> n < 16 \<Longrightarrow> hex_upper m = hex_upper n \<Longrightarrow> m = n"
proof -
  assume "m < 16" "n < 16" "hex_upper m = hex_upper n"
  moreover have "distinct ''0123456789ABCDEF''" by simp
  ultimately show "m = n"
    by (simp add: hex_upper_def nth_eq_iff_index_eq)
qed

lemma percent_byte_inj: "percent_byte a @ xs = percent_byte b @ ys \<Longrightarrow> a = b \<and> xs = ys"
proof -
  assume eq: "percent_byte a @ xs = percent_byte b @ ys"
  then have hi: "hex_upper (of_char a div 16) = hex_upper (of_char b div 16)"
    and lo: "hex_upper (of_char a mod 16) = hex_upper (of_char b mod 16)"
    and rest: "xs = ys"
    by (simp_all add: percent_byte_def Let_def)
  from hi have "(of_char a :: nat) div 16 = of_char b div 16"
    by (rule hex_upper_inj [OF of_char_div_16 of_char_div_16])
  moreover from lo have "(of_char a :: nat) mod 16 = of_char b mod 16"
    by (rule hex_upper_inj [rotated 2]) simp_all
  ultimately have "(of_char a :: nat) = of_char b"
    by (metis div_mult_mod_eq)
  then have "a = b" by simp
  with rest show ?thesis by simp
qed

lemma percent_not_unreserved: "\<not> uri_unreserved CHR ''%''"
  by code_simp

lemma percent_byte_head: "a # xs = percent_byte b @ ys \<Longrightarrow> a = CHR ''%''"
  by (simp add: percent_byte_def Let_def)

lemma percent_encode_inj:
  "percent_encode s = percent_encode t \<Longrightarrow> s = t"
proof (induction s arbitrary: t)
  case Nil
  then show ?case
    by (cases t)
      (auto simp add: percent_encode_Nil percent_encode_Cons percent_byte_def Let_def
        split: if_splits)
next
  case (Cons a s)
  show ?case
  proof (cases t)
    case Nil
    with Cons.prems show ?thesis
      by (auto simp add: percent_encode_Nil percent_encode_Cons percent_byte_def Let_def
          split: if_splits)
  next
    case (Cons b t')
    show ?thesis
    proof (cases "uri_unreserved a"; cases "uri_unreserved b")
      assume "uri_unreserved a" "uri_unreserved b"
      with Cons.prems Cons Cons.IH [of t'] show ?thesis
        by (simp add: percent_encode_Cons)
    next
      assume "uri_unreserved a" "\<not> uri_unreserved b"
      with Cons.prems Cons
      have "a # percent_encode s = percent_byte b @ percent_encode t'"
        by (simp add: percent_encode_Cons)
      then have "a = CHR ''%''" by (rule percent_byte_head)
      with \<open>uri_unreserved a\<close> percent_not_unreserved show ?thesis by simp
    next
      assume "\<not> uri_unreserved a" "uri_unreserved b"
      with Cons.prems Cons
      have "b # percent_encode t' = percent_byte a @ percent_encode s"
        by (simp add: percent_encode_Cons)
      then have "b = CHR ''%''" by (rule percent_byte_head)
      with \<open>uri_unreserved b\<close> percent_not_unreserved show ?thesis by simp
    next
      assume "\<not> uri_unreserved a" "\<not> uri_unreserved b"
      with Cons.prems Cons
      have "percent_byte a @ percent_encode s = percent_byte b @ percent_encode t'"
        by (simp add: percent_encode_Cons)
      then have "a = b \<and> percent_encode s = percent_encode t'"
        by (rule percent_byte_inj)
      with Cons Cons.IH [of t'] show ?thesis by simp
    qed
  qed
qed

text \<open>
  The remote path of a document or attachment determines its id: percent-encoding is
  one-to-one, so two ids never share a file.
\<close>

theorem distinct_ids_have_distinct_paths:
  "(docPath a = docPath b \<longleftrightarrow> a = b)
   \<and> (attachmentDataPath a = attachmentDataPath b \<longleftrightarrow> a = b)
   \<and> (attachmentMetaPath a = attachmentMetaPath b \<longleftrightarrow> a = b)"
  by (auto simp add: docPath_def attachmentDataPath_def attachmentMetaPath_def dest: percent_encode_inj)

subsection \<open>Decoding an encoded id\<close>

lemma hex_digits_read_back: "list_all (\<lambda>k. hex_value (hex_upper k) = Some k) [0..<16]"
  by code_simp

lemma hex_value_hex_upper: "k < 16 \<Longrightarrow> hex_value (hex_upper k) = Some k"
proof -
  assume "k < 16"
  then have "k \<in> set [0..<16]" by simp
  with hex_digits_read_back show ?thesis
    unfolding list_all_iff by blast
qed

lemma escaped_octet_percent_byte:
  "escaped_octet (percent_byte c @ rest) = Some (of_char c, rest)"
proof -
  have "16 * ((of_char c :: nat) div 16) + of_char c mod 16 = of_char c"
    by simp
  then show ?thesis
    using hex_value_hex_upper [OF of_char_div_16 [of c]]
      hex_value_hex_upper [of "of_char c mod 16"]
    by (simp add: percent_byte_def Let_def)
qed

lemma escaped_octets_percent_bytes:
  "escaped_octets (length cs) (concat (map percent_byte cs) @ rest) = Some (map of_char cs, rest)"
  by (induction cs) (simp_all add: escaped_octet_percent_byte)

lemma unreserved_is_ascii: "uri_unreserved c \<Longrightarrow> (of_char c :: nat) < 128 \<and> c \<noteq> CHR ''%''"
  by (auto simp add: uri_unreserved_def Let_def)

lemma encode_escaped_run:
  "\<forall>c \<in> set cs. \<not> uri_unreserved c \<Longrightarrow>
   percent_encode (cs @ rest) = concat (map percent_byte cs) @ percent_encode rest"
  by (induction cs) (simp_all add: percent_encode_Cons)

lemma utf8_scalar_tail: "utf8_scalar (b # bs) \<Longrightarrow> \<forall>x \<in> set bs. 128 \<le> x"
  by (induction "b # bs" rule: utf8_scalar.induct) (auto simp add: continuation_def)

lemma decode_percent_byte:
  "decodeURIComponent (percent_byte c @ R) =
     (if leading_ones (of_char c) = 0 then
        (case decodeURIComponent R of Inl e \<Rightarrow> Inl e | Inr r \<Rightarrow> Inr (c # r))
      else if leading_ones (of_char c) = 1 \<or> 4 < leading_ones (of_char c) then Inl URIError
      else
        (case escaped_octets (leading_ones (of_char c) - 1) R of
           None \<Rightarrow> Inl URIError
         | Some (bs, R') \<Rightarrow>
             if \<not> utf8_scalar (of_char c # bs) then Inl URIError
             else
               (case decodeURIComponent R' of
                  Inl e \<Rightarrow> Inl e
                | Inr r \<Rightarrow> Inr (c # map char_of bs @ r))))"
proof -
  obtain h l where shape: "percent_byte c = [CHR ''%'', h, l]"
    by (simp add: percent_byte_def Let_def)
  have "escaped_octet (CHR ''%'' # h # l # R) = Some (of_char c, R)"
    using escaped_octet_percent_byte [of c R] shape by simp
  then show ?thesis
    unfolding shape
    by (auto simp del: escaped_octet.simps split: option.splits sum.splits)
qed

lemma decode_percent_encode:
  "utf8_valid s \<Longrightarrow> decodeURIComponent (percent_encode s) = Inr s"
proof (induction s rule: utf8_valid.induct)
  case 1
  show ?case by (simp add: percent_encode_Nil)
next
  case (2 c cs)
  let ?n = "leading_ones (of_char c)"
  show ?case
  proof (cases "?n = 0")
    case True
    with 2 have ih: "decodeURIComponent (percent_encode cs) = Inr cs"
      by (simp add: Let_def)
    show ?thesis
    proof (cases "uri_unreserved c")
      case True
      with unreserved_is_ascii [of c] ih show ?thesis
        by (simp add: percent_encode_Cons)
    next
      case False
      with \<open>?n = 0\<close> ih show ?thesis
        by (simp add: percent_encode_Cons decode_percent_byte)
    qed
  next
    case False
    let ?k = "?n - 1"
    let ?cont = "take ?k cs" and ?rest = "drop ?k cs"
    from False "2.prems" have n: "?n \<noteq> 1" "\<not> 4 < ?n"
      and long: "?k \<le> length cs"
      and scalar: "utf8_scalar (of_char c # map of_char ?cont)"
      and valid: "utf8_valid ?rest"
      by (simp_all add: Let_def split: if_splits)
    from False n "2.IH"(2) valid have ih: "decodeURIComponent (percent_encode ?rest) = Inr ?rest"
      by simp
    have high: "128 \<le> (of_char c :: nat)"
      using False by (simp add: leading_ones_def split: if_splits)
    then have c_escaped: "\<not> uri_unreserved c"
      using unreserved_is_ascii [of c] by auto
    have "\<forall>x \<in> set (map of_char ?cont). (128::nat) \<le> x"
      using utf8_scalar_tail [OF scalar] .
    then have cont_escaped: "\<forall>x \<in> set ?cont. \<not> uri_unreserved x"
      using unreserved_is_ascii by fastforce
    have len: "length ?cont = ?k"
      using long by simp
    have "percent_encode cs = concat (map percent_byte ?cont) @ percent_encode ?rest"
      using encode_escaped_run [OF cont_escaped, of ?rest] by (simp only: append_take_drop_id)
    with c_escaped have enc: "percent_encode (c # cs)
        = percent_byte c @ concat (map percent_byte ?cont) @ percent_encode ?rest"
      by (simp add: percent_encode_Cons)
    have octs: "escaped_octets ?k (concat (map percent_byte ?cont) @ percent_encode ?rest)
        = Some (map of_char ?cont, percent_encode ?rest)"
      using escaped_octets_percent_bytes [of ?cont "percent_encode ?rest"] len by simp
    have restored: "map char_of (map (of_char :: char \<Rightarrow> nat) ?cont) = ?cont"
      by (simp add: comp_def)
    have "decodeURIComponent (percent_encode (c # cs)) = Inr (c # ?cont @ ?rest)"
      unfolding enc decode_percent_byte
      using False n octs scalar ih restored by simp
    then show ?thesis by simp
  qed
qed

text \<open>
  Percent-decoding undoes percent-encoding: whenever \<^verbatim>\<open>encodeURIComponent(id)\<close> returns,
  \<^verbatim>\<open>decodeURIComponent\<close> of what it returns is the id.
\<close>

theorem decode_encode_id:
  "encodeURIComponent s = Inr e \<Longrightarrow> decodeURIComponent e = Inr s"
  by (auto simp add: encodeURIComponent_def decode_percent_encode split: if_splits)

theorem decode_encode_id_witness:
  "encodeURIComponent [CHR ''a'', CHR ''/'', CHR 0xC3, CHR 0xA9, CHR ''%'', CHR 0xF0, CHR 0x9F, CHR 0x98, CHR 0x80]
       = Inr ''a%2F%C3%A9%25%F0%9F%98%80''
   \<and> decodeURIComponent ''a%2F%C3%A9%25%F0%9F%98%80''
       = Inr [CHR ''a'', CHR ''/'', CHR 0xC3, CHR 0xA9, CHR ''%'', CHR 0xF0, CHR 0x9F, CHR 0x98, CHR 0x80]"
proof -
  let ?s = "[CHR ''a'', CHR ''/'', CHR 0xC3, CHR 0xA9, CHR ''%'', CHR 0xF0, CHR 0x9F, CHR 0x98, CHR 0x80]"
  have encoded: "encodeURIComponent ?s = Inr ''a%2F%C3%A9%25%F0%9F%98%80''" by code_simp
  from decode_encode_id [OF encoded]
  have "decodeURIComponent ''a%2F%C3%A9%25%F0%9F%98%80'' = Inr ?s" .
  with encoded show ?thesis by simp
qed

lemma suffix_not_straddled:
  assumes "\<not> startsWith (c # cs) ''.json''"
  shows "\<not> startsWith ((c # cs) @ ''.json'') ''.json''"
proof (cases "5 \<le> length (c # cs)")
  case True
  with assms show ?thesis
    by (simp add: startsWith_def)
next
  case False
  then have "length cs < 4" by simp
  then consider "cs = []" | a where "cs = [a]" | a b where "cs = [a, b]"
    | a b d where "cs = [a, b, d]"
    by (cases cs; cases "tl cs"; cases "tl (tl cs)"; cases "tl (tl (tl cs))") auto
  then show ?thesis
    by cases (auto simp add: startsWith_def)
qed

lemma replace_strips_suffix:
  "\<not> includes_text e ''.json'' \<Longrightarrow> replace (e @ ''.json'') ''.json'' [] = e"
proof (induction e)
  case Nil
  show ?case by (simp add: startsWith_def)
next
  case (Cons c cs)
  then have "\<not> startsWith (c # cs) ''.json''" and "\<not> includes_text cs ''.json''"
    by simp_all
  with Cons.IH suffix_not_straddled [of c cs] show ?case
    by simp
qed

lemma base_name_of_file:
  assumes "CHR ''/'' \<notin> set name"
  shows "base_name (''/ztools-sync/'' @ name) = name"
proof -
  have "takeWhile (\<lambda>c. c \<noteq> CHR ''/'') (rev name @ rev ''/ztools-sync/'') = rev name"
    using assms by (auto simp add: takeWhile_append2 takeWhile_tail)
  then show ?thesis
    by (simp add: base_name_def)
qed

text \<open>
  What the listing makes of a document's file: when the id is well formed and its
  encoding does not contain the text \<^verbatim>\<open>.json\<close>, the name of the file is the encoded id
  followed by \<^verbatim>\<open>.json\<close>, and taking \<^verbatim>\<open>.json\<close> out and decoding gives the id back.
\<close>

theorem listed_name_decodes_to_id:
  assumes "utf8_valid docId" and "\<not> includes_text (percent_encode docId) ''.json''"
  shows "base_name (docPath docId) = percent_encode docId @ ''.json''
    \<and> decodeURIComponent (replace (base_name (docPath docId)) ''.json'' []) = Inr docId"
proof -
  have name: "base_name (docPath docId) = percent_encode docId @ ''.json''"
    using base_name_of_file [of "percent_encode docId @ ''.json''"]
      percent_encode_no_slash [of docId]
    by (simp add: docPath_def)
  have "decodeURIComponent (replace (base_name (docPath docId)) ''.json'' []) = Inr docId"
    unfolding name using assms by (simp add: replace_strips_suffix decode_percent_encode)
  with name show ?thesis by simp
qed

theorem listed_name_decodes_to_id_witness:
  "base_name (docPath ''notes/2024 plan'') = ''notes%2F2024%20plan.json''
   \<and> decodeURIComponent (replace (base_name (docPath ''notes/2024 plan'')) ''.json'' [])
       = Inr ''notes/2024 plan''"
proof -
  have valid: "utf8_valid ''notes/2024 plan''"
    and clean: "\<not> includes_text (percent_encode ''notes/2024 plan'') ''.json''"
    and encoded: "percent_encode ''notes/2024 plan'' = ''notes%2F2024%20plan''"
    by code_simp+
  note main = listed_name_decodes_to_id [OF valid clean]
  from main [THEN conjunct1] encoded
  have name: "base_name (docPath ''notes/2024 plan'') = ''notes%2F2024%20plan.json''"
    by (simp only: append_Cons append_Nil)
  from main
  have "decodeURIComponent (replace (base_name (docPath ''notes/2024 plan'')) ''.json'' [])
      = Inr ''notes/2024 plan''"
    by (rule conjunct2)
  with name show ?thesis by (rule conjI)
qed

section \<open>Properties of the revision generator\<close>

declare show_nat.simps [simp del]

lemma digit_table: "list_all (\<lambda>i. is_digit (''0123456789'' ! i) \<and> digit_value (''0123456789'' ! i) = i) [0..<10]"
  by code_simp

lemma digit_char_props: "is_digit (digit_char n) \<and> digit_value (digit_char n) = n mod 10"
proof -
  have "n mod 10 \<in> set [0..<10]" by simp
  with digit_table show ?thesis
    unfolding digit_char_def list_all_iff by blast
qed

lemma show_nat_digits: "list_all is_digit (show_nat n) \<and> show_nat n \<noteq> []"
proof (induction n rule: show_nat.induct)
  case (1 n)
  then show ?case
    using digit_char_props [of n] by (subst (1 2) show_nat.simps) simp
qed

lemma read_nat_snoc: "read_nat (xs @ [c]) = 10 * read_nat xs + digit_value c"
  by (simp add: read_nat_def)

lemma read_show_nat: "read_nat (show_nat n) = n"
proof (induction n rule: show_nat.induct)
  case (1 n)
  show ?case
  proof (cases "n < 10")
    case True
    then show ?thesis
      using digit_char_props [of n] by (subst show_nat.simps) (simp add: read_nat_def)
  next
    case False
    with 1 have "read_nat (show_nat (n div 10)) = n div 10" by simp
    with False show ?thesis
      using digit_char_props [of n] by (subst show_nat.simps) (simp add: read_nat_snoc)
  qed
qed

lemma takeWhile_digits:
  assumes "\<not> starts_with_digit rest"
  shows "takeWhile is_digit (show_nat n @ rest) = show_nat n"
proof -
  have "takeWhile is_digit rest = []"
    using assms by (cases rest) (simp_all add: starts_with_digit_def)
  moreover have "\<forall>c \<in> set (show_nat n). is_digit c"
    using show_nat_digits [of n] by (simp add: list_all_iff)
  ultimately show ?thesis
    by (simp add: takeWhile_append2)
qed

lemma leading_integer_of_numeral:
  "\<not> starts_with_digit rest \<Longrightarrow> leading_integer (Some (show_nat n @ rest)) = n"
  using show_nat_digits [of n]
  by (simp add: leading_integer_def takeWhile_digits read_show_nat)

lemma leading_integer_without_digits:
  "\<not> starts_with_digit s \<Longrightarrow> leading_integer (Some s) = 0"
  by (cases s) (simp_all add: leading_integer_def starts_with_digit_def)

lemma hex_table: "list_all is_hex_lower ''0123456789abcdef''"
  by code_simp

lemma hex_lower_ok: "is_hex_lower (hex_lower n)"
proof -
  have "''0123456789abcdef'' ! (n mod 16) \<in> set ''0123456789abcdef''"
    by (rule nth_mem) simp
  with hex_table show ?thesis
    unfolding hex_lower_def list_all_iff by blast
qed

lemma concat_pairs:
  "(\<forall>x \<in> set xs. length (f x) = 2 \<and> list_all P (f x))
   \<Longrightarrow> length (concat (map f xs)) = 2 * length xs \<and> list_all P (concat (map f xs))"
  by (induction xs) simp_all

lemma random_suffix_shape:
  "length (random_suffix entropy) = 32 \<and> list_all is_hex_lower (random_suffix entropy)"
  using concat_pairs [of "[0..<16]" "\<lambda>i. hex_of_byte (entropy i)" is_hex_lower]
  by (simp add: random_suffix_def hex_of_byte_def hex_lower_ok)

lemma matches_rev_built:
  "length h = 32 \<Longrightarrow> list_all is_hex_lower h \<Longrightarrow> matches_rev n (show_nat n @ ''-'' @ h)"
  by (simp add: matches_rev_def)

text \<open>
  C5. Whatever the random source and the previous revision, the new revision matches
  \<^verbatim>\<open>^k-[0-9a-f]{32}$\<close> where \<open>k\<close> is the leading integer of the previous revision plus
  one. A previous revision that starts with the numeral of \<open>n\<close> (followed by nothing or
  by a character that is not a digit) has leading integer \<open>n\<close>, so the new one has
  sequence \<open>n + 1\<close>; a call with no argument, and a previous revision that does not start
  with a digit, give sequence 1.
\<close>

theorem generateNewRev_increments_sequence:
  "matches_rev (leading_integer previousRev + 1) (generateNewRev entropy previousRev)
   \<and> (\<forall>n rest. \<not> starts_with_digit rest \<longrightarrow>
         leading_integer (Some (show_nat n @ rest)) = n
         \<and> matches_rev (n + 1) (generateNewRev entropy (Some (show_nat n @ rest))))
   \<and> leading_integer None = 0
   \<and> matches_rev 1 (generateNewRev entropy None)
   \<and> (\<forall>s. \<not> starts_with_digit s \<longrightarrow>
         leading_integer (Some s) = 0 \<and> matches_rev 1 (generateNewRev entropy (Some s)))"
proof -
  have shape: "matches_rev (leading_integer p + 1) (generateNewRev entropy p)" for p
    unfolding generateNewRev_def
    using random_suffix_shape [of entropy] by (intro matches_rev_built) simp_all
  have none: "leading_integer None = 0"
    by (simp add: leading_integer_def)
  show ?thesis
  proof (intro conjI allI impI)
    show "matches_rev (leading_integer previousRev + 1) (generateNewRev entropy previousRev)"
      by (rule shape)
  next
    fix n rest
    assume "\<not> starts_with_digit rest"
    then show "leading_integer (Some (show_nat n @ rest)) = n"
      by (rule leading_integer_of_numeral)
    then show "matches_rev (n + 1) (generateNewRev entropy (Some (show_nat n @ rest)))"
      using shape [of "Some (show_nat n @ rest)"] by simp
  next
    show "leading_integer None = 0" by (rule none)
  next
    show "matches_rev 1 (generateNewRev entropy None)"
      using shape [of None] none by simp
  next
    fix s
    assume "\<not> starts_with_digit s"
    then show "leading_integer (Some s) = 0"
      by (rule leading_integer_without_digits)
    then show "matches_rev 1 (generateNewRev entropy (Some s))"
      using shape [of "Some s"] by simp
  qed
qed

theorem generateNewRev_increments_sequence_witness:
  "matches_rev 6 (generateNewRev demo_entropy (Some ''5-deadbeef00112233445566778899aabb''))
   \<and> matches_rev 2 (generateNewRev demo_entropy (Some ''1-abc123''))
   \<and> matches_rev 100 (generateNewRev demo_entropy (Some ''99-abc123''))
   \<and> matches_rev 1 (generateNewRev demo_entropy (Some ''not-a-rev''))
   \<and> matches_rev 1 (generateNewRev demo_entropy (Some ''invalid''))
   \<and> matches_rev 1 (generateNewRev demo_entropy None)"
proof -
  note main = generateNewRev_increments_sequence [of _ demo_entropy]
  have numerals: "show_nat 5 = ''5''" "show_nat (Suc 0) = ''1''" "show_nat 99 = ''99''"
    by code_simp+
  have tails: "\<not> starts_with_digit ''-deadbeef00112233445566778899aabb''"
    "\<not> starts_with_digit ''-abc123''"
    "\<not> starts_with_digit ''not-a-rev''" "\<not> starts_with_digit ''invalid''"
    by code_simp+
  from main tails(1)
  have "matches_rev (5 + 1)
      (generateNewRev demo_entropy (Some (show_nat 5 @ ''-deadbeef00112233445566778899aabb'')))"
    by blast
  then have five: "matches_rev 6
      (generateNewRev demo_entropy (Some ''5-deadbeef00112233445566778899aabb''))"
    by (simp add: numerals)
  from main tails(2)
  have "matches_rev (1 + 1) (generateNewRev demo_entropy (Some (show_nat 1 @ ''-abc123'')))"
    by blast
  then have one: "matches_rev 2 (generateNewRev demo_entropy (Some ''1-abc123''))"
    by (simp add: numerals numeral_2_eq_2)
  from main tails(2)
  have "matches_rev (99 + 1) (generateNewRev demo_entropy (Some (show_nat 99 @ ''-abc123'')))"
    by blast
  then have ninety_nine: "matches_rev 100 (generateNewRev demo_entropy (Some ''99-abc123''))"
    by (simp add: numerals)
  from main tails(3)
  have no_prefix: "matches_rev 1 (generateNewRev demo_entropy (Some ''not-a-rev''))"
    by blast
  from main tails(4)
  have invalid: "matches_rev 1 (generateNewRev demo_entropy (Some ''invalid''))"
    by blast
  from main have absent: "matches_rev 1 (generateNewRev demo_entropy None)"
    by blast
  from five one ninety_nine no_prefix invalid absent show ?thesis by simp
qed

section \<open>Properties of the sync cycle\<close>

text \<open>What pulling one entry of the listing leaves alone, whatever the entry.\<close>

lemma pull_one_frame:
  "syncQueue (local (pull_one rc content now w m cy)) = syncQueue (local cy)
   \<and> set (conflictStore (local cy)) \<subseteq> set (conflictStore (local (pull_one rc content now w m cy)))
   \<and> set (conflicted cy) \<subseteq> set (conflicted (pull_one rc content now w m cy))
   \<and> conflicts (tally (pull_one rc content now w m cy)) + length (conflictStore (local cy))
       = conflicts (tally cy) + length (conflictStore (local (pull_one rc content now w m cy)))
   \<and> conflicts (tally cy) \<le> conflicts (tally (pull_one rc content now w m cy))"
  by (auto simp add: pull_one_def Let_def split: sum.splits option.splits)

text \<open>
  While the remote version of \<open>i\<close> differs from a pending local edit, no entry of the
  listing changes the local document or the checkpoint of \<open>i\<close>.
\<close>

lemma pull_one_keeps:
  assumes "rc_download rc w i = Inr (Some rd)"
    and "pending (local cy) i"
    and "differs content (documents (local cy) i) rd"
  shows "documents (local (pull_one rc content now w m cy)) i = documents (local cy) i
    \<and> checkpoint (local (pull_one rc content now w m cy)) i = checkpoint (local cy) i"
  using assms
  by (cases "meta_docId m = i") (auto simp add: pull_one_def Let_def split: sum.splits option.splits)

lemma pull_one_hits:
  assumes "rc_download rc w i = Inr (Some rd)"
    and "pending (local cy) i"
    and "differs content (documents (local cy) i) rd"
    and "meta_docId m = i" and "needs_pull (local cy) m"
  shows "\<lparr>conflict_docId = i, localDoc = documents (local cy) i, remoteDoc = rd,
           conflict_timestamp = now\<rparr> \<in> set (conflictStore (local (pull_one rc content now w m cy)))
    \<and> i \<in> set (conflicted (pull_one rc content now w m cy))
    \<and> conflicts (tally cy) < conflicts (tally (pull_one rc content now w m cy))"
  using assms by (simp add: pull_one_def Let_def)

lemma needs_pull_cong:
  "checkpoint st (meta_docId m) = checkpoint st' (meta_docId m) \<Longrightarrow> needs_pull st m = needs_pull st' m"
  by (simp add: needs_pull_def)

lemma pull_fold:
  assumes "rc_download rc w i = Inr (Some rd)"
    and "pending (local cy) i"
    and "differs content (documents (local cy) i) rd"
  shows "syncQueue (local (fold (pull_one rc content now w) metas cy)) = syncQueue (local cy)
    \<and> documents (local (fold (pull_one rc content now w) metas cy)) i = documents (local cy) i
    \<and> checkpoint (local (fold (pull_one rc content now w) metas cy)) i = checkpoint (local cy) i
    \<and> set (conflictStore (local cy))
        \<subseteq> set (conflictStore (local (fold (pull_one rc content now w) metas cy)))
    \<and> set (conflicted cy) \<subseteq> set (conflicted (fold (pull_one rc content now w) metas cy))
    \<and> conflicts (tally (fold (pull_one rc content now w) metas cy)) + length (conflictStore (local cy))
        = conflicts (tally cy)
          + length (conflictStore (local (fold (pull_one rc content now w) metas cy)))
    \<and> conflicts (tally cy) \<le> conflicts (tally (fold (pull_one rc content now w) metas cy))
    \<and> ((\<exists>m \<in> set metas. meta_docId m = i \<and> needs_pull (local cy) m) \<longrightarrow>
          \<lparr>conflict_docId = i, localDoc = documents (local cy) i, remoteDoc = rd,
            conflict_timestamp = now\<rparr>
            \<in> set (conflictStore (local (fold (pull_one rc content now w) metas cy)))
          \<and> i \<in> set (conflicted (fold (pull_one rc content now w) metas cy))
          \<and> conflicts (tally cy) < conflicts (tally (fold (pull_one rc content now w) metas cy)))"
  using assms(2,3)
proof (induction metas arbitrary: cy)
  case Nil
  show ?case by simp
next
  case (Cons m ms)
  let ?cy1 = "pull_one rc content now w m cy"
  note frame = pull_one_frame [of rc content now w m cy]
  note keeps = pull_one_keeps [OF assms(1) Cons.prems, of now m]
  have pend1: "pending (local ?cy1) i"
    using Cons.prems(1) frame by (simp add: pending_def)
  have diff1: "differs content (documents (local ?cy1) i) rd"
    using Cons.prems(2) keeps by simp
  note ih = Cons.IH [OF pend1 diff1]
  have hit: "\<lparr>conflict_docId = i, localDoc = documents (local cy) i, remoteDoc = rd,
            conflict_timestamp = now\<rparr>
            \<in> set (conflictStore (local (fold (pull_one rc content now w) ms ?cy1)))
          \<and> i \<in> set (conflicted (fold (pull_one rc content now w) ms ?cy1))
          \<and> conflicts (tally cy) < conflicts (tally (fold (pull_one rc content now w) ms ?cy1))"
    if "\<exists>m' \<in> set (m # ms). meta_docId m' = i \<and> needs_pull (local cy) m'"
  proof (cases "meta_docId m = i \<and> needs_pull (local cy) m")
    case True
    with pull_one_hits [OF assms(1) Cons.prems, of m now] ih show ?thesis
      by force
  next
    case False
    with that obtain m' where m': "m' \<in> set ms" "meta_docId m' = i" "needs_pull (local cy) m'"
      by auto
    from m'(2) keeps have "needs_pull (local ?cy1) m' = needs_pull (local cy) m'"
      by (intro needs_pull_cong) simp
    with m' ih keeps frame show ?thesis
      by force
  qed
  from frame keeps ih hit show ?case
    by auto
qed

text \<open>Pushing the queue entry of another document touches nothing of \<open>i\<close>.\<close>

lemma push_one_frame:
  assumes "item_docId e \<noteq> i"
  shows "documents (local (fst (push_one rc maxRetries now e (cy, w)))) = documents (local cy)
    \<and> conflictStore (local (fst (push_one rc maxRetries now e (cy, w)))) = conflictStore (local cy)
    \<and> conflicts (tally (fst (push_one rc maxRetries now e (cy, w)))) = conflicts (tally cy)
    \<and> filter (\<lambda>x. item_docId x = i) (syncQueue (local (fst (push_one rc maxRetries now e (cy, w)))))
        = filter (\<lambda>x. item_docId x = i) (syncQueue (local cy))
    \<and> checkpoint (local (fst (push_one rc maxRetries now e (cy, w)))) i = checkpoint (local cy) i"
proof -
  have kept: "filter (\<lambda>x. item_docId x \<noteq> item_docId e \<and> item_docId x = i) q
      = filter (\<lambda>x. item_docId x = i) q" for q :: "SyncQueueItem list"
    using assms by (induction q) auto
  have bumped: "filter (\<lambda>x. item_docId x = i)
        (map (\<lambda>x. if item_docId x = item_docId e then x\<lparr>retryCount := retryCount x + 1\<rparr> else x) q)
      = filter (\<lambda>x. item_docId x = i) q" for q :: "SyncQueueItem list"
    using assms by (induction q) auto
  show ?thesis
    using assms
    by (auto simp add: push_one_def Let_def kept bumped
        split: operation.splits option.splits sum.splits prod.splits)
qed

lemma push_fold:
  assumes "\<forall>e \<in> set es. item_docId e \<noteq> i"
  shows "documents (local (fst (fold (push_one rc maxRetries now) es (cy, w)))) = documents (local cy)
    \<and> conflictStore (local (fst (fold (push_one rc maxRetries now) es (cy, w))))
        = conflictStore (local cy)
    \<and> conflicts (tally (fst (fold (push_one rc maxRetries now) es (cy, w)))) = conflicts (tally cy)
    \<and> filter (\<lambda>x. item_docId x = i)
          (syncQueue (local (fst (fold (push_one rc maxRetries now) es (cy, w)))))
        = filter (\<lambda>x. item_docId x = i) (syncQueue (local cy))
    \<and> checkpoint (local (fst (fold (push_one rc maxRetries now) es (cy, w)))) i
        = checkpoint (local cy) i"
  using assms
proof (induction es arbitrary: cy w)
  case Nil
  show ?case by simp
next
  case (Cons e es)
  obtain cy1 w1 where step: "push_one rc maxRetries now e (cy, w) = (cy1, w1)"
    by (cases "push_one rc maxRetries now e (cy, w)")
  from Cons.prems have "item_docId e \<noteq> i" and rest: "\<forall>e \<in> set es. item_docId e \<noteq> i"
    by simp_all
  from push_one_frame [OF this(1), of rc maxRetries now cy w] step
  have one: "documents (local cy1) = documents (local cy)"
    "conflictStore (local cy1) = conflictStore (local cy)"
    "conflicts (tally cy1) = conflicts (tally cy)"
    "filter (\<lambda>x. item_docId x = i) (syncQueue (local cy1))
       = filter (\<lambda>x. item_docId x = i) (syncQueue (local cy))"
    "checkpoint (local cy1) i = checkpoint (local cy) i"
    by simp_all
  from Cons.IH [OF rest, of cy1 w1] one step show ?case
    by simp
qed

subsection \<open>The journal\<close>

text \<open>
  Keeping the journal changes nothing of what a cycle does: reads see the remote
  without the journal, and a push does to the local state and to the remote what it
  does without the journal, adding to the journal the writes of its entry.
\<close>

lemma pull_one_journalled:
  "pull_one (journalled rc) content now (w, j) = pull_one rc content now w"
  by (intro ext) (simp add: pull_one_def journalled_def Let_def)

lemma entry_writes_ids: "written_id ` set (entry_writes maxRetries cy e) \<subseteq> {item_docId e}"
  by (auto simp add: entry_writes_def split: operation.splits option.splits if_splits)

lemma push_one_writes:
  "snd (push_one rc maxRetries now e (cy, w))
     = fold (apply_write rc) (entry_writes maxRetries cy e) w"
  by (auto simp add: push_one_def entry_writes_def Let_def
      split: operation.splits option.splits sum.splits prod.splits)

lemma push_one_journalled:
  "push_one (journalled rc) maxRetries now e (cy, (w, j))
     = (fst (push_one rc maxRetries now e (cy, w)),
        (snd (push_one rc maxRetries now e (cy, w)), j @ entry_writes maxRetries cy e))"
  by (auto simp add: push_one_def journalled_def entry_writes_def Let_def
      split: operation.splits option.splits sum.splits prod.splits)

lemma push_fold_journalled:
  "\<exists>ws. fold (push_one (journalled rc) maxRetries now) es (cy, (w, j))
           = (fst (fold (push_one rc maxRetries now) es (cy, w)),
              (snd (fold (push_one rc maxRetries now) es (cy, w)), j @ ws))
       \<and> snd (fold (push_one rc maxRetries now) es (cy, w)) = fold (apply_write rc) ws w
       \<and> written_id ` set ws \<subseteq> item_docId ` set es"
proof (induction es arbitrary: cy w j)
  case Nil
  show ?case by simp
next
  case (Cons e es)
  obtain cy1 w1 where step: "push_one rc maxRetries now e (cy, w) = (cy1, w1)"
    by (cases "push_one rc maxRetries now e (cy, w)")
  let ?ws1 = "entry_writes maxRetries cy e"
  from push_one_journalled [of rc maxRetries now e cy w j] step
  have jstep: "push_one (journalled rc) maxRetries now e (cy, (w, j)) = (cy1, (w1, j @ ?ws1))"
    by simp
  from push_one_writes [of rc maxRetries now e cy w] step
  have w1: "w1 = fold (apply_write rc) ?ws1 w"
    by simp
  from Cons.IH [of cy1 w1 "j @ ?ws1"]
  obtain ws2 where rest:
    "fold (push_one (journalled rc) maxRetries now) es (cy1, (w1, j @ ?ws1))
       = (fst (fold (push_one rc maxRetries now) es (cy1, w1)),
          (snd (fold (push_one rc maxRetries now) es (cy1, w1)), (j @ ?ws1) @ ws2))"
    "snd (fold (push_one rc maxRetries now) es (cy1, w1)) = fold (apply_write rc) ws2 w1"
    "written_id ` set ws2 \<subseteq> item_docId ` set es"
    by blast
  have "fold (push_one (journalled rc) maxRetries now) (e # es) (cy, (w, j))
      = (fst (fold (push_one rc maxRetries now) (e # es) (cy, w)),
         (snd (fold (push_one rc maxRetries now) (e # es) (cy, w)), j @ (?ws1 @ ws2)))"
    using jstep step rest(1) by simp
  moreover have "snd (fold (push_one rc maxRetries now) (e # es) (cy, w))
      = fold (apply_write rc) (?ws1 @ ws2) w"
    using step rest(2) w1 by simp
  moreover have "written_id ` set (?ws1 @ ws2) \<subseteq> item_docId ` set (e # es)"
    using entry_writes_ids [of maxRetries cy e] rest(3) by auto
  ultimately show ?case
    by blast
qed

text \<open>
  C1, as the model of the cycle has it. Let the connection succeed and the listing name
  a document \<open>i\<close> whose remote version \<open>rd\<close> is newer than the checkpoint of \<open>i\<close> (or \<open>i\<close>
  has none) and is returned by the download, while a queue entry for \<open>i\<close> is pending and
  the local content differs from the content of \<open>rd\<close>. Run the cycle with the journal:
  it is the cycle without the journal, with the same outcome, local state and remote.
  The cycle completes and counts at least this conflict, every new conflict record
  being counted; the local document \<open>i\<close> is what it was; the Conflict Store holds the
  record of \<open>i\<close> with the local document, the remote document and the cycle's time; the
  queue entries of \<open>i\<close> are untouched and still pending; the checkpoint of \<open>i\<close> has not
  moved. And nothing of \<open>i\<close> has been pushed: the journal holds no upload and no deletion
  for \<open>i\<close>, and the remote the cycle leaves is the remote the connection left, after the
  writes of the journal and no other.
\<close>

theorem conflict_is_recorded_not_resolved:
  assumes connected: "rc_connect rc w = (Inr (), w1)"
    and listed: "rc_list rc w1 = Inr metas"
    and changed: "m \<in> set metas" "meta_docId m = i" "needs_pull st m"
    and remote_version: "rc_download rc w1 i = Inr (Some rd)"
    and local_edit: "pending st i"
    and diverged: "differs content (documents st i) rd"
  shows "case syncCycle (journalled rc) content maxRetries now st (w, []) of
           (outcome, st', w', journal) \<Rightarrow>
             syncCycle rc content maxRetries now st w = (outcome, st', w')
             \<and> (\<exists>res. outcome = Inr res \<and> 1 \<le> conflicts res
                  \<and> conflicts res + length (conflictStore st) = length (conflictStore st'))
             \<and> documents st' i = documents st i
             \<and> \<lparr>conflict_docId = i, localDoc = documents st i, remoteDoc = rd,
                 conflict_timestamp = now\<rparr> \<in> set (conflictStore st')
             \<and> filter (\<lambda>e. item_docId e = i) (syncQueue st')
                 = filter (\<lambda>e. item_docId e = i) (syncQueue st)
             \<and> pending st' i
             \<and> checkpoint st' i = checkpoint st i
             \<and> i \<notin> written_id ` set journal
             \<and> w' = fold (apply_write rc) journal w1"
proof -
  let ?start = "\<lparr>local = st, tally = no_result, conflicted = []\<rparr>"
  let ?pulled = "fold (pull_one rc content now w1) metas ?start"
  obtain fin w2 where push:
    "fold (push_one rc maxRetries now) (pushable ?pulled) (?pulled, w1) = (fin, w2)"
    by (cases "fold (push_one rc maxRetries now) (pushable ?pulled) (?pulled, w1)")
  have cycle: "syncCycle rc content maxRetries now st w
      = (Inr (tally fin), (local fin)\<lparr>syncedAt := now\<rparr>, w2)"
    using connected listed push by (simp add: syncCycle_def Let_def)
  from push_fold_journalled [of rc maxRetries now "pushable ?pulled" ?pulled w1 "[]"] push
  obtain journal where journal:
    "fold (push_one (journalled rc) maxRetries now) (pushable ?pulled) (?pulled, (w1, []))
       = (fin, (w2, journal))"
    "w2 = fold (apply_write rc) journal w1"
    "written_id ` set journal \<subseteq> item_docId ` set (pushable ?pulled)"
    by auto
  have jconnected: "rc_connect (journalled rc) (w, []) = (Inr (), (w1, []))"
    and jlisted: "rc_list (journalled rc) (w1, []) = Inr metas"
    using connected listed by (simp_all add: journalled_def)
  have jcycle: "syncCycle (journalled rc) content maxRetries now st (w, [])
      = (Inr (tally fin), (local fin)\<lparr>syncedAt := now\<rparr>, w2, journal)"
    using jconnected jlisted journal(1)
    by (simp add: syncCycle_def Let_def pull_one_journalled)
  have "\<exists>m \<in> set metas. meta_docId m = i \<and> needs_pull (local ?start) m"
    using changed by auto
  with pull_fold [of rc w1 i rd ?start content now metas] remote_version local_edit diverged
  have pulled: "syncQueue (local ?pulled) = syncQueue st"
    "documents (local ?pulled) i = documents st i"
    "checkpoint (local ?pulled) i = checkpoint st i"
    "conflicts (tally ?pulled) + length (conflictStore st) = length (conflictStore (local ?pulled))"
    "\<lparr>conflict_docId = i, localDoc = documents st i, remoteDoc = rd, conflict_timestamp = now\<rparr>
       \<in> set (conflictStore (local ?pulled))"
    "i \<in> set (conflicted ?pulled)"
    "0 < conflicts (tally ?pulled)"
    by (simp_all add: no_result_def pending_def)
  from pulled(6) have skipped: "\<forall>e \<in> set (pushable ?pulled). item_docId e \<noteq> i"
    by (auto simp add: pushable_def)
  from push_fold [OF skipped, of rc maxRetries now ?pulled w1] push
  have pushed: "documents (local fin) = documents (local ?pulled)"
    "conflictStore (local fin) = conflictStore (local ?pulled)"
    "conflicts (tally fin) = conflicts (tally ?pulled)"
    "filter (\<lambda>x. item_docId x = i) (syncQueue (local fin))
       = filter (\<lambda>x. item_docId x = i) (syncQueue (local ?pulled))"
    "checkpoint (local fin) i = checkpoint (local ?pulled) i"
    by simp_all
  have unwritten: "i \<notin> written_id ` set journal"
  proof
    assume "i \<in> written_id ` set journal"
    with journal(3) have "i \<in> item_docId ` set (pushable ?pulled)"
      by blast
    with skipped show False
      by blast
  qed
  have still_pending: "pending ((local fin)\<lparr>syncedAt := now\<rparr>) i"
  proof -
    from local_edit obtain e where "e \<in> set (syncQueue st)" "item_docId e = i"
      by (auto simp add: pending_def)
    then have "e \<in> set (filter (\<lambda>x. item_docId x = i) (syncQueue st))" by simp
    with pushed(4) pulled(1)
    have "e \<in> set (filter (\<lambda>x. item_docId x = i) (syncQueue (local fin)))" by simp
    then have "e \<in> set (syncQueue (local fin))" by simp
    with \<open>item_docId e = i\<close> show ?thesis
      by (auto simp add: pending_def)
  qed
  from cycle jcycle pulled pushed still_pending unwritten journal(2) show ?thesis
    by simp
qed

text \<open>
  The scenario of the specification on the WebDAV client and the in-memory server: the
  plan conflicts and is kept on both sides, the other document is pushed. The only
  write the cycle asks for is the upload of the other document, and the server still
  holds the remote version of the plan.
\<close>

theorem conflict_is_recorded_not_resolved_witness:
  "fst demo_cycle = Inr \<lparr>uploaded = 1, downloaded = 0, conflicts = 1, errors = 0\<rparr>
   \<and> documents (fst (snd demo_cycle)) ''notes/2024 plan'' = Some local_plan
   \<and> conflictStore (fst (snd demo_cycle))
       = [\<lparr>conflict_docId = ''notes/2024 plan'', localDoc = Some local_plan, remoteDoc = demo_doc,
           conflict_timestamp = 100\<rparr>]
   \<and> map item_docId (syncQueue (fst (snd demo_cycle))) = [''notes/2024 plan'']
   \<and> ''notes/2024 plan'' \<notin> written_id ` set (snd (snd (snd demo_cycle)))
   \<and> snd (snd (snd demo_cycle)) = [UploadDoc ''todo'' todo_doc]
   \<and> map fst (files (remote (fst (snd (snd demo_cycle)))))
       = [''/ztools-sync/notes%2F2024%20plan.json'', ''/ztools-sync/todo.json'']
   \<and> fst (downloadDoc flat_platform (Some demo_client) ''notes/2024 plan''
            (fst (snd (snd demo_cycle)))) = Inr demo_doc"
proof -
  let ?i = "''notes/2024 plan''"
  let ?m = "\<lparr>meta_docId = ?i, lastModified = 1\<rparr>"
  let ?w1 = "snd (rc_connect demo_remote stored_world)"
  have connected: "rc_connect demo_remote stored_world = (Inr (), ?w1)"
    and listed: "rc_list demo_remote ?w1 = Inr [?m]"
    and changed: "?m \<in> set [?m]" "meta_docId ?m = ?i" "needs_pull demo_local ?m"
    and remote_version: "rc_download demo_remote ?w1 ?i = Inr (Some demo_doc)"
    and local_edit: "pending demo_local ?i"
    and diverged: "differs flat_content (documents demo_local ?i) demo_doc"
    by code_simp+
  have kept: "documents demo_local ?i = Some local_plan"
    by code_simp
  from conflict_is_recorded_not_resolved
    [OF connected listed changed remote_version local_edit diverged,
      where maxRetries = 3 and now = 100]
  have "documents (fst (snd demo_cycle)) ?i = documents demo_local ?i
      \<and> ?i \<notin> written_id ` set (snd (snd (snd demo_cycle)))"
    by (simp add: demo_cycle_def split: prod.splits)
  with kept have from_theorem: "documents (fst (snd demo_cycle)) ?i = Some local_plan"
    "?i \<notin> written_id ` set (snd (snd (snd demo_cycle)))"
    by simp_all
  have computed: "fst demo_cycle = Inr \<lparr>uploaded = 1, downloaded = 0, conflicts = 1, errors = 0\<rparr>"
    "conflictStore (fst (snd demo_cycle))
       = [\<lparr>conflict_docId = ?i, localDoc = Some local_plan, remoteDoc = demo_doc,
           conflict_timestamp = 100\<rparr>]"
    "map item_docId (syncQueue (fst (snd demo_cycle))) = [?i]"
    "snd (snd (snd demo_cycle)) = [UploadDoc ''todo'' todo_doc]"
    "map fst (files (remote (fst (snd (snd demo_cycle)))))
       = [''/ztools-sync/notes%2F2024%20plan.json'', ''/ztools-sync/todo.json'']"
    "fst (downloadDoc flat_platform (Some demo_client) ?i (fst (snd (snd demo_cycle))))
       = Inr demo_doc"
    by code_simp+
  from from_theorem computed show ?thesis by simp
qed

text \<open>
  C1, as the claim states it, fails when the cycle does not get to pull the remote
  version. In the runs below the plan has a pending local edit, and the server holds a
  version of it that differs in content and is newer than its checkpoint (the client's
  \<open>downloadDoc\<close> returns it).

  In the first run a file that is no document's lies in the sync directory, and the
  listing rejects; in the second the cycle's downloads get no response. A failed
  listing or download is an error of the tally and not the end of the cycle: the push
  goes on, no conflict has been found, and the pending edit of the plan is uploaded
  over the remote version. No conflict record is made, \<^verbatim>\<open>conflicts\<close> is 0, and the remote
  version is gone from the server. In the third run the server cannot be reached: the
  cycle is aborted, and it makes no conflict record and returns no tally.
\<close>

theorem failed_pull_lets_push_overwrite:
  "pending demo_local ''notes/2024 plan''
   \<and> documents demo_local ''notes/2024 plan'' = Some local_plan
   \<and> checkpoint demo_local ''notes/2024 plan'' = Some 0
   \<and> map_of (files (remote stray_world)) ''/ztools-sync/notes%2F2024%20plan.json''
       = Some (projr (flat_stringify demo_doc), 1)
   \<and> fst (downloadDoc flat_platform (Some demo_client) ''notes/2024 plan'' stray_world)
       = Inr demo_doc
   \<and> differs flat_content (documents demo_local ''notes/2024 plan'') demo_doc
   \<and> fst (listRemoteDocsWithMeta (Some demo_client) stray_world) = Inl URIError
   \<and> fst stray_cycle = Inr \<lparr>uploaded = 2, downloaded = 0, conflicts = 0, errors = 1\<rparr>
   \<and> conflictStore (fst (snd stray_cycle)) = []
   \<and> snd (snd (snd stray_cycle))
       = [UploadDoc ''notes/2024 plan'' local_plan, UploadDoc ''todo'' todo_doc]
   \<and> fst (downloadDoc flat_platform (Some demo_client) ''notes/2024 plan''
            (fst (snd (snd stray_cycle)))) = Inr local_plan
   \<and> fst (listRemoteDocsWithMeta (Some demo_client) stored_world)
       = Inr [\<lparr>meta_docId = ''notes/2024 plan'', lastModified = 1\<rparr>]
   \<and> fst deaf_cycle = Inr \<lparr>uploaded = 2, downloaded = 0, conflicts = 0, errors = 1\<rparr>
   \<and> conflictStore (fst (snd deaf_cycle)) = []
   \<and> snd (snd (snd deaf_cycle))
       = [UploadDoc ''notes/2024 plan'' local_plan, UploadDoc ''todo'' todo_doc]
   \<and> fst (downloadDoc flat_platform (Some demo_client) ''notes/2024 plan''
            (fst (snd (snd deaf_cycle)))) = Inr local_plan
   \<and> fst aborted_cycle = Inl (ConnectionFailed NetworkError)
   \<and> conflictStore (fst (snd aborted_cycle)) = []
   \<and> snd (snd (snd aborted_cycle)) = []"
  by code_simp

text \<open>
  The listing of the sources adds a case of its own: it reports the document with id
  \<^verbatim>\<open>a.json.b\<close> under the id \<^verbatim>\<open>a.b.json\<close>, as shown in the section on listing. The
  cycle then looks for a remote document \<^verbatim>\<open>a.b.json\<close>, finds none, and uploads the
  pending local edit of \<^verbatim>\<open>a.json.b\<close> over the remote version, with no error and no
  conflict in the tally.
\<close>

lemma misnamed_listing_hides_conflict:
  "pending dotted_local ''a.json.b''
   \<and> fst (downloadDoc flat_platform (Some demo_client) ''a.json.b'' dotted_world) = Inr dotted_doc
   \<and> differs flat_content (documents dotted_local ''a.json.b'') dotted_doc
   \<and> fst dotted_cycle = Inr \<lparr>uploaded = 1, downloaded = 0, conflicts = 0, errors = 0\<rparr>
   \<and> conflictStore (fst (snd dotted_cycle)) = []
   \<and> fst (downloadDoc flat_platform (Some demo_client) ''a.json.b''
            (fst (snd (snd dotted_cycle)))) = Inr dotted_edit"
  by code_simp

end
